theory Spec2Isabelle
  imports Complex_Main "HOL-Library.Word"
begin

section \<open>Kernel types and constants used by evdi\_gem.c\<close>

text \<open>
  The embedding follows \<^verbatim>\<open>module/evdi_gem.c\<close>. Machine integers are words:
  \<^verbatim>\<open>uint32_t\<close>/\<^verbatim>\<open>unsigned int\<close> is a 32-bit word, \<^verbatim>\<open>uint64_t\<close>, \<^verbatim>\<open>size_t\<close> and
  \<^verbatim>\<open>unsigned long\<close> are 64-bit words (an LP64 kernel). A C \<^verbatim>\<open>int\<close> that only carries an
  errno or a status is an \<open>int\<close>. A nullable pointer is an \<open>option\<close>; a pointer that
  may carry an errno (\<^verbatim>\<open>IS_ERR\<close>/\<^verbatim>\<open>PTR_ERR\<close>) is a sum with the errno on the left.
\<close>

type_synonym u32 = "32 word"
type_synonym u64 = "64 word"
type_synonym ulong = "64 word"
type_synonym page = nat
type_synonym vaddr = "64 word"
type_synonym sg_table = nat

text \<open>Errno values of \<^verbatim>\<open>errno-base.h\<close>, \<^verbatim>\<open>errno.h\<close> (the code negates them).\<close>

definition ENOENT :: int where "ENOENT = 2"
definition EAGAIN :: int where "EAGAIN = 11"
definition ENOMEM :: int where "ENOMEM = 12"
definition ERESTARTSYS :: int where "ERESTARTSYS = 512"

text \<open>The fault codes a \<^verbatim>\<open>vm_operations_struct.fault\<close> handler returns.\<close>

datatype vm_fault = VM_FAULT_OOM | VM_FAULT_SIGBUS | VM_FAULT_NOPAGE

record dma_buf =
  buf_id :: nat
  size_buf :: ulong

record dma_buf_attachment =
  dmabuf :: dma_buf
  attach_id :: nat

text \<open>
  \<^verbatim>\<open>struct drm_gem_object\<close> (the fields this file reads or writes) and
  \<^verbatim>\<open>struct evdi_gem_object\<close>.
\<close>

record drm_gem_object =
  size_gem :: ulong
  import_attach :: "dma_buf_attachment option"

record evdi_gem_object =
  base :: drm_gem_object
  pages :: "page list option"
  vmapping :: "vaddr option"
  sg :: "sg_table option"

text \<open>
  Every call that leaves this file is recorded as an event, with the arguments that
  matter to the object's lifetime, in the order the code makes the calls.
  \<open>Drm_gem_get_pages\<close> also records what the allocator answered.
\<close>

datatype event =
    Kzalloc
  | Kfree
  | Drm_gem_object_init ulong
  | Drm_gem_handle_create
  | Drm_gem_object_release
  | Drm_gem_object_unreference
  | Drm_gem_get_pages "int + page list"
  | Drm_gem_put_pages "page list option" bool bool
  | Drm_free_large "page list option"
  | Dma_buf_vmap dma_buf
  | Dma_buf_vunmap dma_buf "vaddr option"
  | Vmap "page list option" int
  | Vunmap vaddr
  | Drm_prime_gem_destroy "sg_table option"
  | Get_device
  | Put_device
  | Drm_gem_free_mmap_offset
  | Mutex_lock
  | Mutex_unlock
  | Drm_gem_object_lookup u32
  | Drm_gem_create_mmap_offset
  | Dma_buf_attach dma_buf
  | Get_dma_buf dma_buf
  | Dma_buf_map_attachment dma_buf_attachment
  | Dma_buf_unmap_attachment dma_buf_attachment sg_table
  | Dma_buf_detach dma_buf dma_buf_attachment
  | Dma_buf_put dma_buf
  | Drm_malloc_ab int
  | Drm_prime_sg_to_page_addr_arrays sg_table int
  | Vm_insert_page vaddr page

text \<open>
  What the kernel answers to the calls above. Each function of the file makes each of
  these calls at most once, so one answer per primitive describes a whole run.
\<close>

record kernel =
  PAGE_SHIFT :: nat
  kzalloc_ok :: bool
  drm_gem_object_init_ret :: int
  drm_gem_handle_create_ret :: int
  drm_gem_handle_create_handle :: u32
  drm_gem_get_pages_res :: "int + page list"
  vmap_res :: "vaddr option"
  dma_buf_vmap_res :: "vaddr option"
  vm_insert_page_ret :: int
  drm_gem_object_lookup_res :: "u32 \<Rightarrow> evdi_gem_object option"
  drm_gem_create_mmap_offset_ret :: int
  drm_vma_node_offset_addr :: u64
  dma_buf_attach_res :: "int + dma_buf_attachment"
  dma_buf_map_attachment_res :: "int + sg_table"
  drm_malloc_ab_ok :: bool
  sg_pages :: "sg_table \<Rightarrow> int \<Rightarrow> page list"

definition PAGE_SIZE :: "kernel \<Rightarrow> ulong" where
  "PAGE_SIZE k = push_bit (PAGE_SHIFT k) 1"

section \<open>Fault resolution\<close>

datatype fault_error = Out_of_bounds_read

text \<open>
  \<^verbatim>\<open>evdi_gem_fault\<close>. \<open>vm_start\<close> is \<^verbatim>\<open>vma->vm_start\<close>, \<open>va\<close> is
  \<^verbatim>\<open>vmf->virtual_address\<close>. The difference is shifted as an \<^verbatim>\<open>unsigned long\<close> and
  stored in the \<^verbatim>\<open>unsigned int page_offset\<close>. The read \<^verbatim>\<open>obj->pages[page_offset]\<close> has no
  check in the C; reading past the array is undefined there and is the result
  \<open>Inl Out_of_bounds_read\<close> here.
\<close>

definition page_offset :: "kernel \<Rightarrow> ulong \<Rightarrow> vaddr \<Rightarrow> u32" where
  "page_offset k vm_start va = ucast (drop_bit (PAGE_SHIFT k) (va - vm_start))"

definition evdi_gem_fault ::
  "kernel \<Rightarrow> evdi_gem_object \<Rightarrow> ulong \<Rightarrow> vaddr \<Rightarrow> fault_error + (event list \<times> vm_fault)" where
  "evdi_gem_fault k obj vm_start va =
     (case pages obj of
        None \<Rightarrow> Inr ([], VM_FAULT_SIGBUS)
      | Some ps \<Rightarrow>
          if unat (page_offset k vm_start va) < length ps then
            (let page = ps ! unat (page_offset k vm_start va);
                 ret = vm_insert_page_ret k
             in Inr ([Vm_insert_page va page],
                  if ret = - EAGAIN \<or> ret = 0 \<or> ret = - ERESTARTSYS then VM_FAULT_NOPAGE
                  else if ret = - ENOMEM then VM_FAULT_OOM
                  else VM_FAULT_SIGBUS))
          else Inl Out_of_bounds_read)"

section \<open>Allocation and creation\<close>

text \<open>
  \<^verbatim>\<open>evdi_gem_alloc_object\<close>: \<^verbatim>\<open>kzalloc\<close> gives a zeroed object, \<^verbatim>\<open>drm_gem_object_init\<close>
  records the size in the base object; when it fails the object is freed again.
\<close>

definition evdi_gem_alloc_object ::
  "kernel \<Rightarrow> ulong \<Rightarrow> event list \<times> evdi_gem_object option" where
  "evdi_gem_alloc_object k sz =
     (if \<not> kzalloc_ok k then ([Kzalloc], None)
      else if drm_gem_object_init_ret k \<noteq> 0 then
        ([Kzalloc, Drm_gem_object_init sz, Kfree], None)
      else
        ([Kzalloc, Drm_gem_object_init sz],
         Some \<lparr> base = \<lparr> size_gem = sz, import_attach = None \<rparr>,
                pages = None, vmapping = None, sg = None \<rparr>))"

text \<open>The kernel macro \<^verbatim>\<open>roundup(x, y) = ((x + (y - 1)) / y) * y\<close>, on 64-bit operands.\<close>

definition roundup :: "u64 \<Rightarrow> u64 \<Rightarrow> u64" where
  "roundup x y = ((x + (y - 1)) div y) * y"

text \<open>
  \<^verbatim>\<open>evdi_gem_create\<close>: the result is the events, the returned status and the handle
  written through \<^verbatim>\<open>handle_p\<close> (written on success only).
\<close>

definition evdi_gem_create :: "kernel \<Rightarrow> u64 \<Rightarrow> event list \<times> int \<times> u32 option" where
  "evdi_gem_create k sz =
     (let sz' = roundup sz (PAGE_SIZE k);
          (ev, r) = evdi_gem_alloc_object k sz'
      in case r of
           None \<Rightarrow> (ev, - ENOMEM, None)
         | Some obj \<Rightarrow>
             (let ret = drm_gem_handle_create_ret k
              in if ret \<noteq> 0 then
                   (ev @ [Drm_gem_handle_create, Drm_gem_object_release, Kfree], ret, None)
                 else
                   (ev @ [Drm_gem_handle_create, Drm_gem_object_unreference], 0,
                    Some (drm_gem_handle_create_handle k))))"

text \<open>
  \<^verbatim>\<open>struct drm_mode_create_dumb\<close> of the DRM interface: five 32-bit fields in, and
  \<^verbatim>\<open>handle\<close>, \<^verbatim>\<open>pitch\<close> (32 bits) and \<^verbatim>\<open>size\<close> (64 bits) out.
\<close>

record drm_mode_create_dumb =
  height :: u32
  width :: u32
  bpp :: u32
  flags :: u32
  handle :: u32
  pitch :: u32
  size_args :: u64

text \<open>
  The kernel macro \<^verbatim>\<open>DIV_ROUND_UP(n, d) = ((n) + (d) - 1) / (d)\<close>; with a 32-bit unsigned
  \<open>n\<close> the whole expression is 32-bit unsigned.
\<close>

definition DIV_ROUND_UP :: "u32 \<Rightarrow> u32 \<Rightarrow> u32" where
  "DIV_ROUND_UP n d = (n + d - 1) div d"

text \<open>
  \<^verbatim>\<open>evdi_dumb_create\<close>: both products are products of 32-bit unsigned operands; the
  second one is widened to the 64-bit field after it has been computed.
\<close>

definition evdi_dumb_create ::
  "kernel \<Rightarrow> drm_mode_create_dumb \<Rightarrow> event list \<times> int \<times> drm_mode_create_dumb" where
  "evdi_dumb_create k args =
     (let args1 = args\<lparr> pitch := width args * DIV_ROUND_UP (bpp args) 8 \<rparr>;
          args2 = args1\<lparr> size_args := ucast (pitch args1 * height args1) \<rparr>;
          (ev, ret, h) = evdi_gem_create k (size_args args2)
      in (ev, ret, case h of None \<Rightarrow> args2 | Some h' \<Rightarrow> args2\<lparr> handle := h' \<rparr>))"

section \<open>Pages\<close>

text \<open>
  \<^verbatim>\<open>evdi_gem_get_pages\<close>: events, returned status and the object afterwards.
  \<^verbatim>\<open>IS_ERR(pages)\<close> is the left injection, \<^verbatim>\<open>PTR_ERR(pages)\<close> its errno.
\<close>

definition evdi_gem_get_pages ::
  "kernel \<Rightarrow> evdi_gem_object \<Rightarrow> event list \<times> int \<times> evdi_gem_object" where
  "evdi_gem_get_pages k obj =
     (case pages obj of
        Some ps \<Rightarrow> ([], 0, obj)
      | None \<Rightarrow>
          (case drm_gem_get_pages_res k of
             Inl e \<Rightarrow> ([Drm_gem_get_pages (Inl e)], e, obj)
           | Inr ps \<Rightarrow> ([Drm_gem_get_pages (Inr ps)], 0, obj\<lparr> pages := Some ps \<rparr>)))"

text \<open>\<^verbatim>\<open>evdi_gem_put_pages\<close>: either branch passes \<^verbatim>\<open>obj->pages\<close> as it is.\<close>

definition evdi_gem_put_pages :: "evdi_gem_object \<Rightarrow> event list \<times> evdi_gem_object" where
  "evdi_gem_put_pages obj =
     (case import_attach (base obj) of
        Some a \<Rightarrow> ([Drm_free_large (pages obj)], obj\<lparr> pages := None \<rparr>)
      | None \<Rightarrow> ([Drm_gem_put_pages (pages obj) False False], obj\<lparr> pages := None \<rparr>))"

section \<open>Kernel mapping\<close>

text \<open>\<^verbatim>\<open>int page_count = obj->base.size / PAGE_SIZE\<close>: the quotient cut to 32 bits, signed.\<close>

definition page_count :: "kernel \<Rightarrow> evdi_gem_object \<Rightarrow> int" where
  "page_count k obj = sint (ucast (size_gem (base obj) div PAGE_SIZE k) :: 32 word)"

definition evdi_gem_vmap ::
  "kernel \<Rightarrow> evdi_gem_object \<Rightarrow> event list \<times> int \<times> evdi_gem_object" where
  "evdi_gem_vmap k obj =
     (case import_attach (base obj) of
        Some a \<Rightarrow>
          (let obj1 = obj\<lparr> vmapping := dma_buf_vmap_res k \<rparr>
           in ([Dma_buf_vmap (dmabuf a)],
               if vmapping obj1 = None then - ENOMEM else 0, obj1))
      | None \<Rightarrow>
          (let (ev, ret, obj1) = evdi_gem_get_pages k obj
           in if ret \<noteq> 0 then (ev, ret, obj1)
              else
                (let obj2 = obj1\<lparr> vmapping := vmap_res k \<rparr>
                 in (ev @ [Vmap (pages obj1) (page_count k obj)],
                     if vmapping obj2 = None then - ENOMEM else 0, obj2))))"

definition evdi_gem_vunmap :: "evdi_gem_object \<Rightarrow> event list \<times> evdi_gem_object" where
  "evdi_gem_vunmap obj =
     (case import_attach (base obj) of
        Some a \<Rightarrow> ([Dma_buf_vunmap (dmabuf a) (vmapping obj)], obj\<lparr> vmapping := None \<rparr>)
      | None \<Rightarrow>
          (let (ev1, obj1) =
                 (case vmapping obj of
                    Some v \<Rightarrow> ([Vunmap v], obj\<lparr> vmapping := None \<rparr>)
                  | None \<Rightarrow> ([], obj));
               (ev2, obj2) = evdi_gem_put_pages obj1
           in (ev1 @ ev2, obj2)))"

section \<open>Final teardown\<close>

text \<open>
  \<^verbatim>\<open>evdi_gem_free_object\<close>. \<^verbatim>\<open>drm_prime_gem_destroy\<close> leaves \<^verbatim>\<open>import_attach\<close> set, so
  the later \<^verbatim>\<open>evdi_gem_put_pages\<close> still takes its import branch.
\<close>

definition evdi_gem_free_object :: "evdi_gem_object \<Rightarrow> event list \<times> evdi_gem_object" where
  "evdi_gem_free_object obj =
     (let (ev1, obj1) =
            (if vmapping obj \<noteq> None then evdi_gem_vunmap obj else ([], obj));
          ev2 =
            (if import_attach (base obj1) \<noteq> None
             then [Drm_prime_gem_destroy (sg obj1), Put_device] else []);
          (ev3, obj3) =
            (if pages obj1 \<noteq> None then evdi_gem_put_pages obj1 else ([], obj1))
      in (ev1 @ ev2 @ ev3 @ [Drm_gem_free_mmap_offset], obj3))"

section \<open>User-space mapping setup\<close>

text \<open>
  \<^verbatim>\<open>evdi_gem_mmap\<close>: events, returned status, the value written through \<^verbatim>\<open>offset\<close>
  (written on success only) and the looked-up object afterwards.
\<close>

definition evdi_gem_mmap ::
  "kernel \<Rightarrow> u32 \<Rightarrow> event list \<times> int \<times> u64 option \<times> evdi_gem_object option" where
  "evdi_gem_mmap k h =
     (case drm_gem_object_lookup_res k h of
        None \<Rightarrow> ([Mutex_lock, Drm_gem_object_lookup h, Mutex_unlock], - ENOENT, None, None)
      | Some gobj \<Rightarrow>
          (let (ev, ret, gobj1) = evdi_gem_get_pages k gobj
           in if ret \<noteq> 0 then
                ([Mutex_lock, Drm_gem_object_lookup h] @ ev @
                 [Drm_gem_object_unreference, Mutex_unlock], ret, None, Some gobj1)
              else
                (let ret2 = drm_gem_create_mmap_offset_ret k
                 in if ret2 \<noteq> 0 then
                      ([Mutex_lock, Drm_gem_object_lookup h] @ ev @
                       [Drm_gem_create_mmap_offset, Drm_gem_object_unreference, Mutex_unlock],
                       ret2, None, Some gobj1)
                    else
                      ([Mutex_lock, Drm_gem_object_lookup h] @ ev @
                       [Drm_gem_create_mmap_offset, Drm_gem_object_unreference, Mutex_unlock],
                       ret2, Some (drm_vma_node_offset_addr k), Some gobj1))))"

section \<open>Import\<close>

text \<open>
  \<^verbatim>\<open>evdi_prime_create\<close>. \<^verbatim>\<open>int npages = size / PAGE_SIZE\<close> is the quotient cut to 32 bits;
  in \<^verbatim>\<open>npages * PAGE_SIZE\<close> it is converted back to \<^verbatim>\<open>unsigned long\<close> with its sign.
  The status and \<^verbatim>\<open>*obj_p\<close> together are a sum: the errno with \<^verbatim>\<open>*obj_p = NULL\<close>, or 0
  with the object. The second error return has no \<^verbatim>\<open>kfree\<close> and no
  \<^verbatim>\<open>drm_gem_object_release\<close> in the C; its \<^verbatim>\<open>DRM_ERROR\<close> log line is not an event.
\<close>

definition npages :: "kernel \<Rightarrow> ulong \<Rightarrow> 32 word" where
  "npages k sz = ucast (sz div PAGE_SIZE k)"

definition evdi_prime_create ::
  "kernel \<Rightarrow> ulong \<Rightarrow> sg_table \<Rightarrow> event list \<times> (int + evdi_gem_object)" where
  "evdi_prime_create k sz sgt =
     (let n = npages k sz;
          (ev, r) = evdi_gem_alloc_object k (scast n * PAGE_SIZE k)
      in case r of
           None \<Rightarrow> (ev, Inl (- ENOMEM))
         | Some obj \<Rightarrow>
             (let obj1 = obj\<lparr> sg := Some sgt \<rparr>
              in if \<not> drm_malloc_ab_ok k then
                   (ev @ [Drm_malloc_ab (sint n)], Inl (- ENOMEM))
                 else
                   (ev @ [Drm_malloc_ab (sint n),
                          Drm_prime_sg_to_page_addr_arrays sgt (sint n)],
                    Inr (obj1\<lparr> pages := Some (sg_pages k sgt (sint n)) \<rparr>))))"

text \<open>
  \<^verbatim>\<open>evdi_gem_prime_import\<close>: the result is \<^verbatim>\<open>ERR_PTR(errno)\<close> (left) or the new object.
  The two labels of the C are \<open>fail_detach\<close> and \<open>fail_unmap\<close>, which falls through
  into \<open>fail_detach\<close>.
\<close>

definition fail_detach :: "dma_buf \<Rightarrow> dma_buf_attachment \<Rightarrow> event list" where
  "fail_detach buf attach = [Dma_buf_detach buf attach, Dma_buf_put buf, Put_device]"

definition fail_unmap :: "dma_buf \<Rightarrow> dma_buf_attachment \<Rightarrow> sg_table \<Rightarrow> event list" where
  "fail_unmap buf attach sgt = Dma_buf_unmap_attachment attach sgt # fail_detach buf attach"

definition evdi_gem_prime_import ::
  "kernel \<Rightarrow> dma_buf \<Rightarrow> event list \<times> (int + evdi_gem_object)" where
  "evdi_gem_prime_import k buf =
     (case dma_buf_attach_res k of
        Inl e \<Rightarrow> ([Get_device, Dma_buf_attach buf, Put_device], Inl e)
      | Inr attach \<Rightarrow>
          (case dma_buf_map_attachment_res k of
             Inl e \<Rightarrow>
               ([Get_device, Dma_buf_attach buf, Get_dma_buf buf,
                 Dma_buf_map_attachment attach] @ fail_detach buf attach, Inl e)
           | Inr sgt \<Rightarrow>
               (let (ev, r) = evdi_prime_create k (size_buf buf) sgt
                in case r of
                     Inl ret \<Rightarrow>
                       ([Get_device, Dma_buf_attach buf, Get_dma_buf buf,
                         Dma_buf_map_attachment attach] @ ev @ fail_unmap buf attach sgt,
                        Inl ret)
                   | Inr uobj \<Rightarrow>
                       ([Get_device, Dma_buf_attach buf, Get_dma_buf buf,
                         Dma_buf_map_attachment attach] @ ev,
                        Inr (uobj\<lparr> base := (base uobj)\<lparr> import_attach := Some attach \<rparr> \<rparr>)))))"

section \<open>Concrete inputs\<close>

definition kernel0 :: kernel where
  "kernel0 = \<lparr> PAGE_SHIFT = 12, kzalloc_ok = True, drm_gem_object_init_ret = 0,
     drm_gem_handle_create_ret = 0, drm_gem_handle_create_handle = 1,
     drm_gem_get_pages_res = Inr [10, 11], vmap_res = Some 0x1000,
     dma_buf_vmap_res = Some 0x2000, vm_insert_page_ret = 0,
     drm_gem_object_lookup_res = (\<lambda>h. None), drm_gem_create_mmap_offset_ret = 0,
     drm_vma_node_offset_addr = 0x100000, dma_buf_attach_res = Inl (- 12),
     dma_buf_map_attachment_res = Inl (- 12), drm_malloc_ab_ok = True,
     sg_pages = (\<lambda>s n. []) \<rparr>"

definition foreign_buf :: dma_buf where
  "foreign_buf = \<lparr> buf_id = 5, size_buf = 8192 \<rparr>"

definition foreign_attach :: dma_buf_attachment where
  "foreign_attach = \<lparr> dmabuf = foreign_buf, attach_id = 6 \<rparr>"

definition local_obj :: evdi_gem_object where
  "local_obj = \<lparr> base = \<lparr> size_gem = 8192, import_attach = None \<rparr>,
     pages = Some [10, 11], vmapping = Some 0x1000, sg = None \<rparr>"

definition imported_obj :: evdi_gem_object where
  "imported_obj = \<lparr> base = \<lparr> size_gem = 8192, import_attach = Some foreign_attach \<rparr>,
     pages = Some [20, 21], vmapping = Some 0x2000, sg = Some 7 \<rparr>"

definition fresh_obj :: evdi_gem_object where
  "fresh_obj = \<lparr> base = \<lparr> size_gem = 8192, import_attach = None \<rparr>,
     pages = None, vmapping = None, sg = None \<rparr>"

definition kernel1 :: kernel where
  "kernel1 = kernel0\<lparr> drm_gem_object_lookup_res := (\<lambda>h. if h = 1 then Some fresh_obj else None) \<rparr>"

section \<open>Counting calls in a trace\<close>

text \<open>An allocation is a call of the page allocator that returned pages.\<close>

fun is_allocation :: "event \<Rightarrow> bool" where
  "is_allocation (Drm_gem_get_pages (Inr ps)) = True"
| "is_allocation e = False"

definition is_unreference :: "event \<Rightarrow> bool" where
  "is_unreference e = (e = Drm_gem_object_unreference)"

definition kernel_map_fails :: kernel where
  "kernel_map_fails = kernel0\<lparr> dma_buf_attach_res := Inr foreign_attach,
     dma_buf_map_attachment_res := Inl (- 22) \<rparr>"

definition kernel_malloc_fails :: kernel where
  "kernel_malloc_fails = kernel0\<lparr> dma_buf_attach_res := Inr foreign_attach,
     dma_buf_map_attachment_res := Inr 7, drm_malloc_ab_ok := False \<rparr>"

definition kernel_import_ok :: kernel where
  "kernel_import_ok = kernel0\<lparr> dma_buf_attach_res := Inr foreign_attach,
     dma_buf_map_attachment_res := Inr 7, sg_pages := (\<lambda>s n. [20, 21]) \<rparr>"



definition big_args :: drm_mode_create_dumb where
  "big_args = \<lparr> height = 0x4001, width = 0x10000, bpp = 32, flags = 0, handle = 0, pitch = 0,
     size_args = 0 \<rparr>"

section \<open>Kinds of calls\<close>

fun is_kernel_unmap :: "event \<Rightarrow> bool" where
  "is_kernel_unmap (Vunmap v) = True"
| "is_kernel_unmap (Dma_buf_vunmap b v) = True"
| "is_kernel_unmap e = False"

fun is_import_release :: "event \<Rightarrow> bool" where
  "is_import_release (Drm_prime_gem_destroy s) = True"
| "is_import_release e = False"

fun is_page_release :: "event \<Rightarrow> bool" where
  "is_page_release (Drm_gem_put_pages ps d a) = True"
| "is_page_release (Drm_free_large ps) = True"
| "is_page_release e = False"

section \<open>Fault outcomes\<close>

lemma page_offset_kernel0: "page_offset (kernel0\<lparr> vm_insert_page_ret := r \<rparr>) 0 0x1000 = 1"
  by (simp add: page_offset_def kernel0_def drop_bit_eq_div)

text \<open>
  Claim C1, as the code has it. With no page array the handler returns
  \<open>VM_FAULT_SIGBUS\<close> without calling the insertion primitive. With a page array and the
  page index inside it, the handler inserts the page at that index and its result depends
  on the primitive's result only: \<open>VM_FAULT_NOPAGE\<close> exactly for success (0),
  \<open>-EAGAIN\<close> and \<open>-ERESTARTSYS\<close>; \<open>VM_FAULT_OOM\<close> exactly for \<open>-ENOMEM\<close>;
  \<open>VM_FAULT_SIGBUS\<close> exactly for every other result. Success has no result of its own.
\<close>

theorem evdi_gem_fault_outcome:
  "(pages obj = None \<longrightarrow> evdi_gem_fault k obj vm_start va = Inr ([], VM_FAULT_SIGBUS)) \<and>
   (\<forall>ps. pages obj = Some ps \<and> unat (page_offset k vm_start va) < length ps \<longrightarrow>
      (\<exists>c. evdi_gem_fault k obj vm_start va =
              Inr ([Vm_insert_page va (ps ! unat (page_offset k vm_start va))], c) \<and>
           (c = VM_FAULT_NOPAGE \<longleftrightarrow>
              vm_insert_page_ret k = 0 \<or> vm_insert_page_ret k = - EAGAIN \<or>
              vm_insert_page_ret k = - ERESTARTSYS) \<and>
           (c = VM_FAULT_OOM \<longleftrightarrow> vm_insert_page_ret k = - ENOMEM) \<and>
           (c = VM_FAULT_SIGBUS \<longleftrightarrow>
              vm_insert_page_ret k \<noteq> 0 \<and> vm_insert_page_ret k \<noteq> - EAGAIN \<and>
              vm_insert_page_ret k \<noteq> - ERESTARTSYS \<and> vm_insert_page_ret k \<noteq> - ENOMEM)))"
  by (auto simp: evdi_gem_fault_def Let_def EAGAIN_def ERESTARTSYS_def ENOMEM_def)

text \<open>
  The theorem of C1 at concrete inputs: an object without pages, and a two-page object
  faulting in its second page with the primitive answering 0, -11 (\<open>-EAGAIN\<close>), -512
  (\<open>-ERESTARTSYS\<close>), -12 (\<open>-ENOMEM\<close>) and -14.
\<close>

theorem evdi_gem_fault_outcome_witness:
  "evdi_gem_fault kernel0 (local_obj\<lparr> pages := None \<rparr>) 0 0x1000 = Inr ([], VM_FAULT_SIGBUS) \<and>
   evdi_gem_fault (kernel0\<lparr> vm_insert_page_ret := 0 \<rparr>) local_obj 0 0x1000 =
     Inr ([Vm_insert_page 0x1000 11], VM_FAULT_NOPAGE) \<and>
   evdi_gem_fault (kernel0\<lparr> vm_insert_page_ret := - 11 \<rparr>) local_obj 0 0x1000 =
     Inr ([Vm_insert_page 0x1000 11], VM_FAULT_NOPAGE) \<and>
   evdi_gem_fault (kernel0\<lparr> vm_insert_page_ret := - 512 \<rparr>) local_obj 0 0x1000 =
     Inr ([Vm_insert_page 0x1000 11], VM_FAULT_NOPAGE) \<and>
   evdi_gem_fault (kernel0\<lparr> vm_insert_page_ret := - 12 \<rparr>) local_obj 0 0x1000 =
     Inr ([Vm_insert_page 0x1000 11], VM_FAULT_OOM) \<and>
   evdi_gem_fault (kernel0\<lparr> vm_insert_page_ret := - 14 \<rparr>) local_obj 0 0x1000 =
     Inr ([Vm_insert_page 0x1000 11], VM_FAULT_SIGBUS)"
  using evdi_gem_fault_outcome [where obj = "local_obj\<lparr> pages := None \<rparr>" and k = kernel0
      and vm_start = 0 and va = "0x1000"]
    evdi_gem_fault_outcome [where obj = local_obj and k = "kernel0\<lparr> vm_insert_page_ret := 0 \<rparr>"
      and vm_start = 0 and va = "0x1000"]
    evdi_gem_fault_outcome [where obj = local_obj and k = "kernel0\<lparr> vm_insert_page_ret := - 11 \<rparr>"
      and vm_start = 0 and va = "0x1000"]
    evdi_gem_fault_outcome [where obj = local_obj and k = "kernel0\<lparr> vm_insert_page_ret := - 512 \<rparr>"
      and vm_start = 0 and va = "0x1000"]
    evdi_gem_fault_outcome [where obj = local_obj and k = "kernel0\<lparr> vm_insert_page_ret := - 12 \<rparr>"
      and vm_start = 0 and va = "0x1000"]
    evdi_gem_fault_outcome [where obj = local_obj and k = "kernel0\<lparr> vm_insert_page_ret := - 14 \<rparr>"
      and vm_start = 0 and va = "0x1000"]
  by (simp add: page_offset_kernel0 local_obj_def EAGAIN_def ERESTARTSYS_def ENOMEM_def)

text \<open>
  Claim C1 as stated fails: it gives success an outcome of its own, distinct from the
  retry outcome. On the same object and address the handler returns the same
  \<open>VM_FAULT_NOPAGE\<close> when the insertion succeeds (0) and when it answers \<open>-EAGAIN\<close>.
\<close>

theorem evdi_gem_fault_success_counterexample:
  "evdi_gem_fault (kernel0\<lparr> vm_insert_page_ret := 0 \<rparr>) local_obj 0 0x1000 =
     Inr ([Vm_insert_page 0x1000 11], VM_FAULT_NOPAGE) \<and>
   evdi_gem_fault (kernel0\<lparr> vm_insert_page_ret := - EAGAIN \<rparr>) local_obj 0 0x1000 =
     Inr ([Vm_insert_page 0x1000 11], VM_FAULT_NOPAGE)"
  by (simp add: evdi_gem_fault_def local_obj_def page_offset_kernel0)

section \<open>The page index of a fault\<close>

lemma unat_page_offset:
  "unat (page_offset k vm_start va) =
     (unat (va - vm_start) div unat (PAGE_SIZE k)) mod 2 ^ 32"
proof -
  have "drop_bit (PAGE_SHIFT k) (va - vm_start) = (va - vm_start) div PAGE_SIZE k"
    by (simp add: PAGE_SIZE_def drop_bit_eq_div)
  then have "unat (drop_bit (PAGE_SHIFT k) (va - vm_start)) =
      unat (va - vm_start) div unat (PAGE_SIZE k)"
    by (simp add: unat_div)
  then show ?thesis
    unfolding page_offset_def by (simp add: unsigned_ucast_eq take_bit_eq_mod)
qed

lemma kernel0_page: "PAGE_SHIFT kernel0 = 12" "unat (PAGE_SIZE kernel0) = 4096"
  "vm_insert_page_ret kernel0 = 0"
  by (simp_all add: PAGE_SIZE_def kernel0_def)

text \<open>
  Claim C8, as the code has it. Without a page array the handler returns before any read.
  With a page array it always reads \<open>pages[page_offset]\<close>: when the index is below the
  number of pages in the array it inserts exactly the page at that index, and when it is
  not the read is past the array; there is no other check. The index is the distance of the
  faulting address from the start of the region, in pages, cut to 32 bits. So the read is
  in bounds whenever that distance is below the number of pages, in particular when the
  array holds \<open>size / PAGE_SIZE\<close> pages and the address is within \<open>size / PAGE_SIZE\<close> pages
  of the start; and an address that is not, with a distance below \<open>2^32\<close> pages, is read
  past the array.
\<close>

theorem evdi_gem_fault_index_unchecked:
  "(pages obj = None \<longrightarrow> evdi_gem_fault k obj vm_start va = Inr ([], VM_FAULT_SIGBUS)) \<and>
   (\<forall>ps. pages obj = Some ps \<longrightarrow>
      (unat (page_offset k vm_start va) < length ps \<longrightarrow>
         (\<exists>c. evdi_gem_fault k obj vm_start va =
            Inr ([Vm_insert_page va (ps ! unat (page_offset k vm_start va))], c))) \<and>
      (length ps \<le> unat (page_offset k vm_start va) \<longrightarrow>
         evdi_gem_fault k obj vm_start va = Inl Out_of_bounds_read) \<and>
      unat (page_offset k vm_start va) =
        (unat (va - vm_start) div unat (PAGE_SIZE k)) mod 2 ^ 32 \<and>
      (unat (va - vm_start) div unat (PAGE_SIZE k) < length ps \<longrightarrow>
         (\<exists>c. evdi_gem_fault k obj vm_start va =
            Inr ([Vm_insert_page va (ps ! (unat (va - vm_start) div unat (PAGE_SIZE k) mod 2 ^ 32))],
                 c))) \<and>
      (length ps = unat (size_gem (base obj) div PAGE_SIZE k) \<and>
       unat (va - vm_start) div unat (PAGE_SIZE k) < unat (size_gem (base obj) div PAGE_SIZE k) \<longrightarrow>
         (\<exists>c. evdi_gem_fault k obj vm_start va =
            Inr ([Vm_insert_page va (ps ! (unat (va - vm_start) div unat (PAGE_SIZE k) mod 2 ^ 32))],
                 c))) \<and>
      (length ps \<le> unat (va - vm_start) div unat (PAGE_SIZE k) \<and>
       unat (va - vm_start) div unat (PAGE_SIZE k) < 2 ^ 32 \<longrightarrow>
         evdi_gem_fault k obj vm_start va = Inl Out_of_bounds_read))"
proof -
  let ?d = "unat (va - vm_start) div unat (PAGE_SIZE k)"
  let ?i = "unat (page_offset k vm_start va)"
  have idx: "?i = ?d mod 2 ^ 32"
    by (rule unat_page_offset)
  have le: "?i \<le> ?d"
    by (simp add: idx)
  have none: "pages obj = None \<longrightarrow> evdi_gem_fault k obj vm_start va = Inr ([], VM_FAULT_SIGBUS)"
    by (simp add: evdi_gem_fault_def)
  have rd: "\<exists>c. evdi_gem_fault k obj vm_start va = Inr ([Vm_insert_page va (ps ! ?i)], c)"
    if "pages obj = Some ps" "?i < length ps" for ps
    using that by (simp add: evdi_gem_fault_def Let_def)
  have oob: "evdi_gem_fault k obj vm_start va = Inl Out_of_bounds_read"
    if "pages obj = Some ps" "length ps \<le> ?i" for ps
    using that by (simp add: evdi_gem_fault_def Let_def)
  have inb: "\<exists>c. evdi_gem_fault k obj vm_start va = Inr ([Vm_insert_page va (ps ! (?d mod 2 ^ 32))], c)"
    if "pages obj = Some ps" "?d < length ps" for ps
  proof -
    have "?i < length ps"
      using that(2) le by simp
    then show ?thesis
      using rd [OF that(1)] idx by simp
  qed
  have out: "evdi_gem_fault k obj vm_start va = Inl Out_of_bounds_read"
    if "pages obj = Some ps" "length ps \<le> ?d" "?d < 2 ^ 32" for ps
  proof -
    have "?i = ?d"
      using that(3) by (simp add: idx)
    then show ?thesis
      using oob [OF that(1)] that(2) by simp
  qed
  show ?thesis
  proof (intro conjI allI impI)
    show "pages obj = None \<Longrightarrow> evdi_gem_fault k obj vm_start va = Inr ([], VM_FAULT_SIGBUS)"
      using none by simp
  next
    fix ps assume "pages obj = Some ps" "?i < length ps"
    then show "\<exists>c. evdi_gem_fault k obj vm_start va = Inr ([Vm_insert_page va (ps ! ?i)], c)"
      by (rule rd)
  next
    fix ps assume "pages obj = Some ps" "length ps \<le> ?i"
    then show "evdi_gem_fault k obj vm_start va = Inl Out_of_bounds_read"
      by (rule oob)
  next
    show "?i = ?d mod 2 ^ 32"
      by (rule idx)
  next
    fix ps assume "pages obj = Some ps" "?d < length ps"
    then show "\<exists>c. evdi_gem_fault k obj vm_start va =
        Inr ([Vm_insert_page va (ps ! (?d mod 2 ^ 32))], c)"
      by (rule inb)
  next
    fix ps
    assume p: "pages obj = Some ps"
      and h: "length ps = unat (size_gem (base obj) div PAGE_SIZE k) \<and>
        ?d < unat (size_gem (base obj) div PAGE_SIZE k)"
    then have "?d < length ps"
      by simp
    with p show "\<exists>c. evdi_gem_fault k obj vm_start va =
        Inr ([Vm_insert_page va (ps ! (?d mod 2 ^ 32))], c)"
      by (rule inb)
  next
    fix ps
    assume p: "pages obj = Some ps" and h: "length ps \<le> ?d \<and> ?d < 2 ^ 32"
    show "evdi_gem_fault k obj vm_start va = Inl Out_of_bounds_read"
      using out [OF p] h by simp
  qed
qed

text \<open>
  The theorem of C8 at concrete inputs: an 8192-byte object with its two pages and 4096-byte
  pages. Without a page array no read happens; a fault at byte 8192 of the region reads
  past the array; a fault at byte 8191 inserts the second page; a fault in the first page of
  a region that starts at 0x5000 inserts the first page.
\<close>

theorem evdi_gem_fault_index_unchecked_witness:
  "evdi_gem_fault kernel0 (local_obj\<lparr> pages := None \<rparr>) 0 0x2000 = Inr ([], VM_FAULT_SIGBUS) \<and>
   evdi_gem_fault kernel0 local_obj 0 0x2000 = Inl Out_of_bounds_read \<and>
   evdi_gem_fault kernel0 local_obj 0 0x1fff = Inr ([Vm_insert_page 0x1fff 11], VM_FAULT_NOPAGE) \<and>
   evdi_gem_fault kernel0 local_obj 0x5000 0x5fff = Inr ([Vm_insert_page 0x5fff 10], VM_FAULT_NOPAGE)"
proof -
  have p: "pages local_obj = Some [10, 11]"
    by (simp add: local_obj_def)
  have n: "pages (local_obj\<lparr> pages := None \<rparr>) = None"
    by simp
  have sz: "length [10::nat, 11] = unat (size_gem (base local_obj) div PAGE_SIZE kernel0)"
    by (simp add: local_obj_def PAGE_SIZE_def kernel0_def)
  have a: "evdi_gem_fault kernel0 (local_obj\<lparr> pages := None \<rparr>) 0 0x2000 = Inr ([], VM_FAULT_SIGBUS)"
    using evdi_gem_fault_index_unchecked [where obj = "local_obj\<lparr> pages := None \<rparr>"
        and k = kernel0 and vm_start = 0 and va = "0x2000", THEN conjunct1] n by simp
  have b: "evdi_gem_fault kernel0 local_obj 0 0x2000 = Inl Out_of_bounds_read"
    using evdi_gem_fault_index_unchecked [where obj = local_obj and k = kernel0
        and vm_start = 0 and va = "0x2000", THEN conjunct2, rule_format, OF p]
    by (simp add: kernel0_page)
  have c: "\<exists>c. evdi_gem_fault kernel0 local_obj 0 0x1fff = Inr ([Vm_insert_page 0x1fff 11], c)"
    using evdi_gem_fault_index_unchecked [where obj = local_obj and k = kernel0
        and vm_start = 0 and va = "0x1fff", THEN conjunct2, rule_format, OF p] sz
    by (simp add: kernel0_page)
  have d: "\<exists>c. evdi_gem_fault kernel0 local_obj 0x5000 0x5fff = Inr ([Vm_insert_page 0x5fff 10], c)"
    using evdi_gem_fault_index_unchecked [where obj = local_obj and k = kernel0
        and vm_start = "0x5000" and va = "0x5fff", THEN conjunct2, rule_format, OF p] sz
    by (simp add: kernel0_page)
  have c': "evdi_gem_fault kernel0 local_obj 0 0x1fff = Inr ([Vm_insert_page 0x1fff 11], VM_FAULT_NOPAGE)"
    using c by (auto simp: evdi_gem_fault_def Let_def kernel0_page split: option.splits if_splits)
  have d': "evdi_gem_fault kernel0 local_obj 0x5000 0x5fff =
      Inr ([Vm_insert_page 0x5fff 10], VM_FAULT_NOPAGE)"
    using d by (auto simp: evdi_gem_fault_def Let_def kernel0_page split: option.splits if_splits)
  show ?thesis
    using a b c' d' by blast
qed

text \<open>
  Claim C8 as stated fails in its last part: the read can be in bounds for an address that
  is not within \<open>size / PAGE_SIZE\<close> pages of the start. The object has two pages; at a
  distance of \<open>2^32\<close> pages the index is cut to 0 and the handler inserts the first page.
\<close>

theorem evdi_gem_fault_index_unchecked_counterexample:
  "pages local_obj = Some [10, 11] \<and>
   unat (size_gem (base local_obj) div PAGE_SIZE kernel0) = 2 \<and>
   unat ((0x100000000000 :: 64 word) - 0) div unat (PAGE_SIZE kernel0) = 4294967296 \<and>
   evdi_gem_fault kernel0 local_obj 0 0x100000000000 =
     Inr ([Vm_insert_page 0x100000000000 10], VM_FAULT_NOPAGE)"
  by (simp add: evdi_gem_fault_def local_obj_def kernel0_def page_offset_def PAGE_SIZE_def
      drop_bit_eq_div)

section \<open>Page acquisition\<close>

lemma get_pages_present:
  "pages obj = Some ps \<Longrightarrow> evdi_gem_get_pages k obj = ([], 0, obj)"
  by (simp add: evdi_gem_get_pages_def)

lemma get_pages_fail:
  "pages obj = None \<Longrightarrow> drm_gem_get_pages_res k = Inl e \<Longrightarrow>
     evdi_gem_get_pages k obj = ([Drm_gem_get_pages (Inl e)], e, obj)"
  by (simp add: evdi_gem_get_pages_def)

lemma get_pages_alloc:
  "pages obj = None \<Longrightarrow> drm_gem_get_pages_res k = Inr ps \<Longrightarrow>
     evdi_gem_get_pages k obj = ([Drm_gem_get_pages (Inr ps)], 0, obj\<lparr> pages := Some ps \<rparr>)"
  by (simp add: evdi_gem_get_pages_def)

lemma get_pages_allocations_le:
  "length (filter is_allocation (fst (evdi_gem_get_pages k obj))) \<le> 1"
  by (cases "pages obj"; cases "drm_gem_get_pages_res k")
     (simp_all add: evdi_gem_get_pages_def)

lemma get_pages_twice:
  "length (filter is_allocation
     (fst (evdi_gem_get_pages k obj) @
      fst (evdi_gem_get_pages k' (snd (snd (evdi_gem_get_pages k obj)))))) \<le> 1"
proof (cases "pages obj")
  case (Some ps)
  then show ?thesis
    by (simp add: get_pages_present)
next
  case None
  show ?thesis
  proof (cases "drm_gem_get_pages_res k")
    case (Inl e)
    show ?thesis
      using get_pages_allocations_le [of k' obj]
      by (simp add: get_pages_fail [OF None Inl])
  next
    case (Inr ps)
    show ?thesis
      by (simp add: get_pages_alloc [OF None Inr] get_pages_present)
  qed
qed

lemma get_pages_again:
  "pages obj \<noteq> None \<Longrightarrow> evdi_gem_get_pages k obj = ([], 0, obj)"
  by (cases "pages obj") (simp_all add: get_pages_present)

text \<open>
  Claim C6. With the page array present \<open>evdi_gem_get_pages\<close> returns 0, calls nothing and
  leaves the object as it is. When the allocator fails, its errno is returned and the
  object is unchanged, so the page array stays absent. In two consecutive calls (whatever
  the allocator answers to each) at most one allocation happens, and once the first call
  has left a page array behind the second call does nothing.
\<close>

theorem evdi_gem_get_pages_idempotent:
  "(\<forall>ps. pages obj = Some ps \<longrightarrow> evdi_gem_get_pages k obj = ([], 0, obj)) \<and>
   (\<forall>e. pages obj = None \<and> drm_gem_get_pages_res k = Inl e \<longrightarrow>
      evdi_gem_get_pages k obj = ([Drm_gem_get_pages (Inl e)], e, obj)) \<and>
   length (filter is_allocation
     (fst (evdi_gem_get_pages k obj) @
      fst (evdi_gem_get_pages k' (snd (snd (evdi_gem_get_pages k obj)))))) \<le> 1 \<and>
   (pages (snd (snd (evdi_gem_get_pages k obj))) \<noteq> None \<longrightarrow>
      evdi_gem_get_pages k' (snd (snd (evdi_gem_get_pages k obj))) =
        ([], 0, snd (snd (evdi_gem_get_pages k obj))))"
  using get_pages_present [of obj _ k] get_pages_fail [of obj k] get_pages_twice [of k obj k']
    get_pages_again [of "snd (snd (evdi_gem_get_pages k obj))" k']
  by blast

text \<open>
  The theorem of C6 at concrete inputs: an object with its pages, an object without pages
  whose allocation fails with -12 (\<open>-ENOMEM\<close>), and the same object allocated and asked
  again. After a failed first call the second call asks the allocator again; that is two
  calls of the allocator and one allocation.
\<close>

theorem evdi_gem_get_pages_idempotent_witness:
  "evdi_gem_get_pages kernel0 local_obj = ([], 0, local_obj) \<and>
   evdi_gem_get_pages (kernel0\<lparr> drm_gem_get_pages_res := Inl (- 12) \<rparr>) fresh_obj =
     ([Drm_gem_get_pages (Inl (- 12))], - 12, fresh_obj) \<and>
   pages fresh_obj = None \<and>
   evdi_gem_get_pages kernel0 fresh_obj =
     ([Drm_gem_get_pages (Inr [10, 11])], 0, fresh_obj\<lparr> pages := Some [10, 11] \<rparr>) \<and>
   evdi_gem_get_pages kernel0 (fresh_obj\<lparr> pages := Some [10, 11] \<rparr>) =
     ([], 0, fresh_obj\<lparr> pages := Some [10, 11] \<rparr>) \<and>
   length (filter is_allocation
     (fst (evdi_gem_get_pages kernel0 fresh_obj) @
      fst (evdi_gem_get_pages kernel0 (snd (snd (evdi_gem_get_pages kernel0 fresh_obj)))))) \<le> 1 \<and>
   fst (evdi_gem_get_pages (kernel0\<lparr> drm_gem_get_pages_res := Inl (- 12) \<rparr>) fresh_obj) @
   fst (evdi_gem_get_pages kernel0
     (snd (snd (evdi_gem_get_pages (kernel0\<lparr> drm_gem_get_pages_res := Inl (- 12) \<rparr>)
        fresh_obj)))) =
     [Drm_gem_get_pages (Inl (- 12)), Drm_gem_get_pages (Inr [10, 11])]"
proof -
  have none: "pages fresh_obj = None"
    by (simp add: fresh_obj_def)
  have first: "evdi_gem_get_pages kernel0 fresh_obj =
      ([Drm_gem_get_pages (Inr [10, 11])], 0, fresh_obj\<lparr> pages := Some [10, 11] \<rparr>)"
    by (simp add: evdi_gem_get_pages_def none kernel0_def)
  have a: "evdi_gem_get_pages kernel0 local_obj = ([], 0, local_obj)"
    using evdi_gem_get_pages_idempotent [where obj = local_obj and k = kernel0 and k' = kernel0,
        THEN conjunct1]
    by (simp add: local_obj_def)
  have b: "evdi_gem_get_pages (kernel0\<lparr> drm_gem_get_pages_res := Inl (- 12) \<rparr>) fresh_obj =
      ([Drm_gem_get_pages (Inl (- 12))], - 12, fresh_obj)"
    using evdi_gem_get_pages_idempotent [where obj = fresh_obj
        and k = "kernel0\<lparr> drm_gem_get_pages_res := Inl (- 12) \<rparr>" and k' = kernel0,
        THEN conjunct2, THEN conjunct1]
    by (simp add: none)
  have c: "length (filter is_allocation
     (fst (evdi_gem_get_pages kernel0 fresh_obj) @
      fst (evdi_gem_get_pages kernel0 (snd (snd (evdi_gem_get_pages kernel0 fresh_obj)))))) \<le> 1"
    using evdi_gem_get_pages_idempotent [where obj = fresh_obj and k = kernel0 and k' = kernel0,
        THEN conjunct2, THEN conjunct2, THEN conjunct1] .
  have d: "evdi_gem_get_pages kernel0 (fresh_obj\<lparr> pages := Some [10, 11] \<rparr>) =
     ([], 0, fresh_obj\<lparr> pages := Some [10, 11] \<rparr>)"
    using evdi_gem_get_pages_idempotent [where obj = fresh_obj and k = kernel0 and k' = kernel0,
        THEN conjunct2, THEN conjunct2, THEN conjunct2]
    by (simp add: first)
  have e: "fst (evdi_gem_get_pages (kernel0\<lparr> drm_gem_get_pages_res := Inl (- 12) \<rparr>) fresh_obj) @
      fst (evdi_gem_get_pages kernel0
        (snd (snd (evdi_gem_get_pages (kernel0\<lparr> drm_gem_get_pages_res := Inl (- 12) \<rparr>)
           fresh_obj)))) =
      [Drm_gem_get_pages (Inl (- 12)), Drm_gem_get_pages (Inr [10, 11])]"
    by (simp add: b first)
  show ?thesis
    using none first a b c d e by blast
qed

section \<open>Preparing a user-space mapping\<close>

lemma mmap_not_found:
  "drm_gem_object_lookup_res k h = None \<Longrightarrow>
     evdi_gem_mmap k h =
       ([Mutex_lock, Drm_gem_object_lookup h, Mutex_unlock], - ENOENT, None, None)"
  by (simp add: evdi_gem_mmap_def)

lemma mmap_found:
  assumes "drm_gem_object_lookup_res k h = Some gobj"
    and "evdi_gem_get_pages k gobj = (ev, ret, gobj1)"
  shows "evdi_gem_mmap k h =
     ([Mutex_lock, Drm_gem_object_lookup h] @ ev @
      (if ret \<noteq> 0 then [] else [Drm_gem_create_mmap_offset]) @
      [Drm_gem_object_unreference, Mutex_unlock],
      (if ret \<noteq> 0 then ret else drm_gem_create_mmap_offset_ret k),
      (if ret = 0 \<and> drm_gem_create_mmap_offset_ret k = 0
       then Some (drm_vma_node_offset_addr k) else None),
      Some gobj1)"
  using assms by (simp add: evdi_gem_mmap_def Let_def)

lemma get_pages_no_unreference:
  "evdi_gem_get_pages k obj = (ev, ret, obj1) \<Longrightarrow> filter is_unreference ev = []"
  by (auto simp: evdi_gem_get_pages_def is_unreference_def split: option.splits sum.splits)

lemma get_pages_ret_fail:
  "evdi_gem_get_pages k obj = (ev, ret, obj1) \<Longrightarrow> pages obj = None \<Longrightarrow>
     drm_gem_get_pages_res k = Inl e \<Longrightarrow> ret = e"
  by (simp add: evdi_gem_get_pages_def)

lemma get_pages_ret_ok:
  "evdi_gem_get_pages k obj = (ev, ret, obj1) \<Longrightarrow>
     pages obj \<noteq> None \<or> (\<exists>ps. drm_gem_get_pages_res k = Inr ps) \<Longrightarrow> ret = 0"
  by (auto simp: evdi_gem_get_pages_def split: option.splits sum.splits)



text \<open>
  Claim C7. For a handle the lookup does not find, \<open>evdi_gem_mmap\<close> returns \<open>-ENOENT\<close>,
  writes no offset and drops no reference. For a handle it finds, on every path the trace
  holds exactly one \<open>drm_gem_object_unreference\<close>, and it is the last call before the
  mutex is released; a failing page acquisition returns the allocator's errno, a failing
  offset allocation returns that call's status, neither writes an offset, and success
  returns 0 with the offset of the object's node.
\<close>

theorem evdi_gem_mmap_reference:
  "(drm_gem_object_lookup_res k h = None \<longrightarrow>
      evdi_gem_mmap k h =
        ([Mutex_lock, Drm_gem_object_lookup h, Mutex_unlock], - ENOENT, None, None)) \<and>
   (\<forall>gobj. drm_gem_object_lookup_res k h = Some gobj \<longrightarrow>
      (case evdi_gem_mmap k h of (ev, ret, off, g) \<Rightarrow>
         length (filter is_unreference ev) = 1 \<and>
         (\<exists>pre. ev = pre @ [Drm_gem_object_unreference, Mutex_unlock]) \<and>
         (\<forall>e. pages gobj = None \<and> drm_gem_get_pages_res k = Inl e \<and> e \<noteq> 0 \<longrightarrow>
            ret = e \<and> off = None) \<and>
         (\<forall>e. (pages gobj \<noteq> None \<or> (\<exists>ps. drm_gem_get_pages_res k = Inr ps)) \<and>
              drm_gem_create_mmap_offset_ret k = e \<and> e \<noteq> 0 \<longrightarrow> ret = e \<and> off = None) \<and>
         ((pages gobj \<noteq> None \<or> (\<exists>ps. drm_gem_get_pages_res k = Inr ps)) \<and>
              drm_gem_create_mmap_offset_ret k = 0 \<longrightarrow>
            ret = 0 \<and> off = Some (drm_vma_node_offset_addr k))))"
proof (intro conjI allI impI)
  assume "drm_gem_object_lookup_res k h = None"
  then show "evdi_gem_mmap k h =
      ([Mutex_lock, Drm_gem_object_lookup h, Mutex_unlock], - ENOENT, None, None)"
    by (rule mmap_not_found)
next
  fix gobj
  assume found: "drm_gem_object_lookup_res k h = Some gobj"
  obtain ev ret gobj1 where gp: "evdi_gem_get_pages k gobj = (ev, ret, gobj1)"
    using prod_cases3 by blast
  note m = mmap_found [OF found gp]
  have nu: "filter is_unreference ev = []"
    using gp by (rule get_pages_no_unreference)
  define ev' where "ev' = [Mutex_lock, Drm_gem_object_lookup h] @ ev @
      (if ret \<noteq> 0 then [] else [Drm_gem_create_mmap_offset]) @
      [Drm_gem_object_unreference, Mutex_unlock]"
  define ret' where "ret' = (if ret \<noteq> 0 then ret else drm_gem_create_mmap_offset_ret k)"
  define off' where "off' = (if ret = 0 \<and> drm_gem_create_mmap_offset_ret k = 0
       then Some (drm_vma_node_offset_addr k) else None)"
  have r: "evdi_gem_mmap k h = (ev', ret', off', Some gobj1)"
    by (simp only: m ev'_def ret'_def off'_def)
  have count: "length (filter is_unreference ev') = 1"
    by (simp add: ev'_def nu is_unreference_def)
  have suffix: "\<exists>pre. ev' = pre @ [Drm_gem_object_unreference, Mutex_unlock]"
  proof
    show "ev' = ([Mutex_lock, Drm_gem_object_lookup h] @ ev @
      (if ret \<noteq> 0 then [] else [Drm_gem_create_mmap_offset])) @
      [Drm_gem_object_unreference, Mutex_unlock]"
      by (simp add: ev'_def)
  qed
  have pfail: "\<forall>e. pages gobj = None \<and> drm_gem_get_pages_res k = Inl e \<and> e \<noteq> 0 \<longrightarrow>
            ret' = e \<and> off' = None"
  proof (intro allI impI)
    fix e
    assume a: "pages gobj = None \<and> drm_gem_get_pages_res k = Inl e \<and> e \<noteq> 0"
    then have "ret = e"
      using get_pages_ret_fail [OF gp, of e] by simp
    with a show "ret' = e \<and> off' = None"
      by (simp add: ret'_def off'_def)
  qed
  have ofail: "\<forall>e. (pages gobj \<noteq> None \<or> (\<exists>ps. drm_gem_get_pages_res k = Inr ps)) \<and>
        drm_gem_create_mmap_offset_ret k = e \<and> e \<noteq> 0 \<longrightarrow> ret' = e \<and> off' = None"
  proof (intro allI impI)
    fix e
    assume a: "(pages gobj \<noteq> None \<or> (\<exists>ps. drm_gem_get_pages_res k = Inr ps)) \<and>
        drm_gem_create_mmap_offset_ret k = e \<and> e \<noteq> 0"
    then have "ret = 0"
      using get_pages_ret_ok [OF gp] by simp
    with a show "ret' = e \<and> off' = None"
      by (simp add: ret'_def off'_def)
  qed
  have ok: "(pages gobj \<noteq> None \<or> (\<exists>ps. drm_gem_get_pages_res k = Inr ps)) \<and>
        drm_gem_create_mmap_offset_ret k = 0 \<longrightarrow>
        ret' = 0 \<and> off' = Some (drm_vma_node_offset_addr k)"
  proof
    assume a: "(pages gobj \<noteq> None \<or> (\<exists>ps. drm_gem_get_pages_res k = Inr ps)) \<and>
        drm_gem_create_mmap_offset_ret k = 0"
    then have "ret = 0"
      using get_pages_ret_ok [OF gp] by simp
    with a show "ret' = 0 \<and> off' = Some (drm_vma_node_offset_addr k)"
      by (simp add: ret'_def off'_def)
  qed
  show "case evdi_gem_mmap k h of (ev, ret, off, g) \<Rightarrow>
         length (filter is_unreference ev) = 1 \<and>
         (\<exists>pre. ev = pre @ [Drm_gem_object_unreference, Mutex_unlock]) \<and>
         (\<forall>e. pages gobj = None \<and> drm_gem_get_pages_res k = Inl e \<and> e \<noteq> 0 \<longrightarrow>
            ret = e \<and> off = None) \<and>
         (\<forall>e. (pages gobj \<noteq> None \<or> (\<exists>ps. drm_gem_get_pages_res k = Inr ps)) \<and>
              drm_gem_create_mmap_offset_ret k = e \<and> e \<noteq> 0 \<longrightarrow> ret = e \<and> off = None) \<and>
         ((pages gobj \<noteq> None \<or> (\<exists>ps. drm_gem_get_pages_res k = Inr ps)) \<and>
              drm_gem_create_mmap_offset_ret k = 0 \<longrightarrow>
            ret = 0 \<and> off = Some (drm_vma_node_offset_addr k))"
    unfolding r prod.case
    using count suffix pfail ofail ok by (intro conjI)
qed

text \<open>
  The theorem of C7 at concrete inputs: handle 3 is unknown, handle 1 names an object
  without pages; the calls are run with every primitive succeeding, with the page
  allocator failing with -12 and with the offset allocation failing with -28.
\<close>

theorem evdi_gem_mmap_reference_witness:
  "evdi_gem_mmap kernel1 3 =
     ([Mutex_lock, Drm_gem_object_lookup 3, Mutex_unlock], - 2, None, None) \<and>
   evdi_gem_mmap kernel1 1 =
     ([Mutex_lock, Drm_gem_object_lookup 1, Drm_gem_get_pages (Inr [10, 11]),
       Drm_gem_create_mmap_offset, Drm_gem_object_unreference, Mutex_unlock],
      0, Some 0x100000, Some (fresh_obj\<lparr> pages := Some [10, 11] \<rparr>)) \<and>
   evdi_gem_mmap (kernel1\<lparr> drm_gem_get_pages_res := Inl (- 12) \<rparr>) 1 =
     ([Mutex_lock, Drm_gem_object_lookup 1, Drm_gem_get_pages (Inl (- 12)),
       Drm_gem_object_unreference, Mutex_unlock], - 12, None, Some fresh_obj) \<and>
   evdi_gem_mmap (kernel1\<lparr> drm_gem_create_mmap_offset_ret := - 28 \<rparr>) 1 =
     ([Mutex_lock, Drm_gem_object_lookup 1, Drm_gem_get_pages (Inr [10, 11]),
       Drm_gem_create_mmap_offset, Drm_gem_object_unreference, Mutex_unlock],
      - 28, None, Some (fresh_obj\<lparr> pages := Some [10, 11] \<rparr>)) \<and>
   length (filter is_unreference (fst (evdi_gem_mmap kernel1 1))) = 1 \<and>
   length (filter is_unreference
     (fst (evdi_gem_mmap (kernel1\<lparr> drm_gem_get_pages_res := Inl (- 12) \<rparr>) 1))) = 1 \<and>
   length (filter is_unreference
     (fst (evdi_gem_mmap (kernel1\<lparr> drm_gem_create_mmap_offset_ret := - 28 \<rparr>) 1))) = 1"
proof -
  have none: "pages fresh_obj = None"
    by (simp add: fresh_obj_def)
  have l3: "drm_gem_object_lookup_res kernel1 3 = None"
    by (simp add: kernel1_def)
  have l1: "drm_gem_object_lookup_res kernel1 1 = Some fresh_obj"
    by (simp add: kernel1_def)
  have lp: "drm_gem_object_lookup_res (kernel1\<lparr> drm_gem_get_pages_res := Inl (- 12) \<rparr>) 1 =
      Some fresh_obj"
    by (simp add: kernel1_def)
  have lo: "drm_gem_object_lookup_res (kernel1\<lparr> drm_gem_create_mmap_offset_ret := - 28 \<rparr>) 1 =
      Some fresh_obj"
    by (simp add: kernel1_def)
  have v3: "evdi_gem_mmap kernel1 3 =
     ([Mutex_lock, Drm_gem_object_lookup 3, Mutex_unlock], - 2, None, None)"
    using evdi_gem_mmap_reference [where k = kernel1 and h = 3, THEN conjunct1] l3
    by (simp add: ENOENT_def)
  have v1: "evdi_gem_mmap kernel1 1 =
     ([Mutex_lock, Drm_gem_object_lookup 1, Drm_gem_get_pages (Inr [10, 11]),
       Drm_gem_create_mmap_offset, Drm_gem_object_unreference, Mutex_unlock],
      0, Some 0x100000, Some (fresh_obj\<lparr> pages := Some [10, 11] \<rparr>))"
    by (simp add: evdi_gem_mmap_def l1 evdi_gem_get_pages_def none kernel1_def kernel0_def)
  have vp: "evdi_gem_mmap (kernel1\<lparr> drm_gem_get_pages_res := Inl (- 12) \<rparr>) 1 =
     ([Mutex_lock, Drm_gem_object_lookup 1, Drm_gem_get_pages (Inl (- 12)),
       Drm_gem_object_unreference, Mutex_unlock], - 12, None, Some fresh_obj)"
    by (simp add: evdi_gem_mmap_def l1 evdi_gem_get_pages_def none)
  have vo: "evdi_gem_mmap (kernel1\<lparr> drm_gem_create_mmap_offset_ret := - 28 \<rparr>) 1 =
     ([Mutex_lock, Drm_gem_object_lookup 1, Drm_gem_get_pages (Inr [10, 11]),
       Drm_gem_create_mmap_offset, Drm_gem_object_unreference, Mutex_unlock],
      - 28, None, Some (fresh_obj\<lparr> pages := Some [10, 11] \<rparr>))"
    by (simp add: evdi_gem_mmap_def l1 evdi_gem_get_pages_def none kernel1_def kernel0_def)
  have c1: "length (filter is_unreference (fst (evdi_gem_mmap kernel1 1))) = 1"
    using evdi_gem_mmap_reference [where k = kernel1 and h = 1, THEN conjunct2, rule_format, OF l1]
    by (simp add: v1)
  have cp: "length (filter is_unreference
     (fst (evdi_gem_mmap (kernel1\<lparr> drm_gem_get_pages_res := Inl (- 12) \<rparr>) 1))) = 1"
    using evdi_gem_mmap_reference [where k = "kernel1\<lparr> drm_gem_get_pages_res := Inl (- 12) \<rparr>"
        and h = 1, THEN conjunct2, rule_format, OF lp]
    by (simp add: vp)
  have co: "length (filter is_unreference
     (fst (evdi_gem_mmap (kernel1\<lparr> drm_gem_create_mmap_offset_ret := - 28 \<rparr>) 1))) = 1"
    using evdi_gem_mmap_reference [where k = "kernel1\<lparr> drm_gem_create_mmap_offset_ret := - 28 \<rparr>"
        and h = 1, THEN conjunct2, rule_format, OF lo]
    by (simp add: vo)
  show ?thesis
    using v3 v1 vp vo c1 cp co by blast
qed

section \<open>Unmapping twice\<close>

lemma put_pages_clears: "pages (snd (evdi_gem_put_pages obj)) = None"
  by (cases "import_attach (base obj)") (simp_all add: evdi_gem_put_pages_def)

lemma put_pages_absent: "pages obj = None \<Longrightarrow> snd (evdi_gem_put_pages obj) = obj"
  by (cases "import_attach (base obj)") (simp_all add: evdi_gem_put_pages_def)

lemma vunmap_imported:
  "import_attach (base obj) = Some a \<Longrightarrow>
     evdi_gem_vunmap obj = ([Dma_buf_vunmap (dmabuf a) (vmapping obj)], obj\<lparr> vmapping := None \<rparr>)"
  by (simp add: evdi_gem_vunmap_def)

lemma vunmap_local_mapped:
  "import_attach (base obj) = None \<Longrightarrow> vmapping obj = Some v \<Longrightarrow>
     evdi_gem_vunmap obj =
       ([Vunmap v, Drm_gem_put_pages (pages obj) False False],
        obj\<lparr> vmapping := None, pages := None \<rparr>)"
  by (simp add: evdi_gem_vunmap_def evdi_gem_put_pages_def)

lemma vunmap_local_unmapped:
  "import_attach (base obj) = None \<Longrightarrow> vmapping obj = None \<Longrightarrow>
     evdi_gem_vunmap obj =
       ([Drm_gem_put_pages (pages obj) False False], obj\<lparr> pages := None \<rparr>)"
  by (simp add: evdi_gem_vunmap_def evdi_gem_put_pages_def)

text \<open>
  Claim C2, as the code has it. A second \<open>evdi_gem_vunmap\<close> right after a first one leaves
  the object exactly as the first call left it, with no kernel mapping. It still makes a
  call: \<open>dma_buf_vunmap\<close> with a null mapping for an imported object,
  \<open>drm_gem_put_pages\<close> with a null page array otherwise. \<open>evdi_gem_put_pages\<close> always
  leaves the page array absent, and leaves an object whose page array is already absent
  unchanged.
\<close>

theorem evdi_gem_vunmap_twice:
  "snd (evdi_gem_vunmap (snd (evdi_gem_vunmap obj))) = snd (evdi_gem_vunmap obj) \<and>
   vmapping (snd (evdi_gem_vunmap obj)) = None \<and>
   fst (evdi_gem_vunmap (snd (evdi_gem_vunmap obj))) =
     (case import_attach (base obj) of
        Some a \<Rightarrow> [Dma_buf_vunmap (dmabuf a) None]
      | None \<Rightarrow> [Drm_gem_put_pages None False False]) \<and>
   pages (snd (evdi_gem_put_pages obj)) = None \<and>
   (pages obj = None \<longrightarrow> snd (evdi_gem_put_pages obj) = obj)"
proof (cases "import_attach (base obj)")
  case (Some a)
  then show ?thesis
    by (simp add: vunmap_imported put_pages_clears put_pages_absent)
next
  case None
  show ?thesis
  proof (cases "vmapping obj")
    case (Some v)
    show ?thesis
      using None Some
      by (simp add: vunmap_local_mapped vunmap_local_unmapped put_pages_clears put_pages_absent)
  next
    case n: None
    show ?thesis
      using None n
      by (simp add: vunmap_local_unmapped put_pages_clears put_pages_absent)
  qed
qed

text \<open>
  The theorem of C2 at concrete inputs: a local object mapped by \<open>evdi_gem_vmap\<close> and a
  mapped imported object, each unmapped twice, and \<open>evdi_gem_put_pages\<close> on an object
  without pages.
\<close>

theorem evdi_gem_vunmap_twice_witness:
  "evdi_gem_vmap kernel0 fresh_obj =
     ([Drm_gem_get_pages (Inr [10, 11]), Vmap (Some [10, 11]) 2], 0, local_obj) \<and>
   evdi_gem_vunmap local_obj =
     ([Vunmap 0x1000, Drm_gem_put_pages (Some [10, 11]) False False],
      local_obj\<lparr> vmapping := None, pages := None \<rparr>) \<and>
   evdi_gem_vunmap (snd (evdi_gem_vunmap local_obj)) =
     ([Drm_gem_put_pages None False False], local_obj\<lparr> vmapping := None, pages := None \<rparr>) \<and>
   evdi_gem_vunmap imported_obj =
     ([Dma_buf_vunmap foreign_buf (Some 0x2000)], imported_obj\<lparr> vmapping := None \<rparr>) \<and>
   evdi_gem_vunmap (snd (evdi_gem_vunmap imported_obj)) =
     ([Dma_buf_vunmap foreign_buf None], imported_obj\<lparr> vmapping := None \<rparr>) \<and>
   snd (evdi_gem_put_pages fresh_obj) = fresh_obj"
proof -
  have m: "evdi_gem_vmap kernel0 fresh_obj =
     ([Drm_gem_get_pages (Inr [10, 11]), Vmap (Some [10, 11]) 2], 0, local_obj)"
    by (simp add: evdi_gem_vmap_def evdi_gem_get_pages_def page_count_def PAGE_SIZE_def
        fresh_obj_def local_obj_def kernel0_def)
  have l: "evdi_gem_vunmap local_obj =
     ([Vunmap 0x1000, Drm_gem_put_pages (Some [10, 11]) False False],
      local_obj\<lparr> vmapping := None, pages := None \<rparr>)"
    by (simp add: vunmap_local_mapped [where v = "0x1000"] local_obj_def)
  have i: "evdi_gem_vunmap imported_obj =
     ([Dma_buf_vunmap foreign_buf (Some 0x2000)], imported_obj\<lparr> vmapping := None \<rparr>)"
    by (simp add: vunmap_imported [where a = foreign_attach] imported_obj_def foreign_attach_def)
  have la: "import_attach (base local_obj) = None"
    by (simp add: local_obj_def)
  have ia: "import_attach (base imported_obj) = Some foreign_attach"
    by (simp add: imported_obj_def)
  have db: "dmabuf foreign_attach = foreign_buf"
    by (simp add: foreign_attach_def)
  have l2: "evdi_gem_vunmap (snd (evdi_gem_vunmap local_obj)) =
     ([Drm_gem_put_pages None False False], local_obj\<lparr> vmapping := None, pages := None \<rparr>)"
    using evdi_gem_vunmap_twice [where obj = local_obj]
    by (simp add: l prod_eq_iff la)
  have i2: "evdi_gem_vunmap (snd (evdi_gem_vunmap imported_obj)) =
     ([Dma_buf_vunmap foreign_buf None], imported_obj\<lparr> vmapping := None \<rparr>)"
    using evdi_gem_vunmap_twice [where obj = imported_obj]
    by (simp add: i prod_eq_iff ia db)
  have p: "snd (evdi_gem_put_pages fresh_obj) = fresh_obj"
    using evdi_gem_vunmap_twice [where obj = fresh_obj]
    by (simp add: fresh_obj_def)
  show ?thesis
    using m l i l2 i2 p by blast
qed

text \<open>
  Claim C2 as stated fails: the second unmap is not a no-op. On a local object it calls
  \<open>drm_gem_put_pages\<close> with the page array already null, on an imported object it calls
  \<open>dma_buf_vunmap\<close> with the mapping already null.
\<close>

theorem evdi_gem_vunmap_twice_counterexample:
  "fst (evdi_gem_vunmap (snd (evdi_gem_vunmap local_obj))) =
     [Drm_gem_put_pages None False False] \<and>
   fst (evdi_gem_vunmap (snd (evdi_gem_vunmap imported_obj))) =
     [Dma_buf_vunmap foreign_buf None]"
  by (simp add: evdi_gem_vunmap_def evdi_gem_put_pages_def local_obj_def imported_obj_def
      foreign_attach_def)

section \<open>The order of the final teardown\<close>

lemma free_object_imported_mapped:
  assumes "import_attach (base obj) = Some a" and "vmapping obj = Some v"
  shows "evdi_gem_free_object obj =
     ([Dma_buf_vunmap (dmabuf a) (Some v), Drm_prime_gem_destroy (sg obj), Put_device] @
      (case pages obj of None \<Rightarrow> [] | Some ps \<Rightarrow> [Drm_free_large (Some ps)]) @
      [Drm_gem_free_mmap_offset],
      obj\<lparr> vmapping := None, pages := None \<rparr>)"
  using assms
  by (cases "pages obj")
     (simp_all add: evdi_gem_free_object_def vunmap_imported evdi_gem_put_pages_def)

lemma free_object_imported_unmapped:
  assumes "import_attach (base obj) = Some a" and "vmapping obj = None"
  shows "evdi_gem_free_object obj =
     ([Drm_prime_gem_destroy (sg obj), Put_device] @
      (case pages obj of None \<Rightarrow> [] | Some ps \<Rightarrow> [Drm_free_large (Some ps)]) @
      [Drm_gem_free_mmap_offset],
      obj\<lparr> pages := None \<rparr>)"
  using assms
  by (cases "pages obj")
     (simp_all add: evdi_gem_free_object_def evdi_gem_put_pages_def)

lemma free_object_local_mapped:
  assumes "import_attach (base obj) = None" and "vmapping obj = Some v"
  shows "evdi_gem_free_object obj =
     ([Vunmap v, Drm_gem_put_pages (pages obj) False False, Drm_gem_free_mmap_offset],
      obj\<lparr> vmapping := None, pages := None \<rparr>)"
  using assms
  by (simp add: evdi_gem_free_object_def vunmap_local_mapped)

lemma free_object_local_unmapped:
  assumes "import_attach (base obj) = None" and "vmapping obj = None"
  shows "evdi_gem_free_object obj =
     ((case pages obj of None \<Rightarrow> [] | Some ps \<Rightarrow> [Drm_gem_put_pages (Some ps) False False]) @
      [Drm_gem_free_mmap_offset],
      obj\<lparr> pages := None \<rparr>)"
  using assms
  by (cases "pages obj")
     (simp_all add: evdi_gem_free_object_def evdi_gem_put_pages_def)

lemma prime_create_object:
  assumes "evdi_prime_create k sz sgt = (ev, Inr u)"
  shows "u = \<lparr> base = \<lparr> size_gem = scast (npages k sz) * PAGE_SIZE k, import_attach = None \<rparr>,
               pages = Some (sg_pages k sgt (sint (npages k sz))), vmapping = None,
               sg = Some sgt \<rparr>"
proof (cases "kzalloc_ok k \<and> drm_gem_object_init_ret k = 0 \<and> drm_malloc_ab_ok k")
  case True
  then show ?thesis
    using assms by (simp add: evdi_prime_create_def evdi_gem_alloc_object_def Let_def)
next
  case False
  then have "\<exists>e. snd (evdi_prime_create k sz sgt) = Inl e"
    by (auto simp: evdi_prime_create_def evdi_gem_alloc_object_def Let_def)
  then show ?thesis
    using assms by simp
qed

lemma prime_import_object:
  assumes "evdi_gem_prime_import k buf = (ev, Inr u)"
  shows "\<exists>a ps. import_attach (base u) = Some a \<and> pages u = Some ps \<and> vmapping u = None"
proof (cases "dma_buf_attach_res k")
  case (Inl e)
  then show ?thesis
    using assms by (simp add: evdi_gem_prime_import_def)
next
  case a: (Inr attach)
  show ?thesis
  proof (cases "dma_buf_map_attachment_res k")
    case (Inl e)
    then show ?thesis
      using assms a by (simp add: evdi_gem_prime_import_def)
  next
    case m: (Inr sgt)
    obtain ev' r where c: "evdi_prime_create k (size_buf buf) sgt = (ev', r)"
      by (cases "evdi_prime_create k (size_buf buf) sgt") auto
    show ?thesis
    proof (cases r)
      case (Inl e)
      then show ?thesis
        using assms a m c by (simp add: evdi_gem_prime_import_def)
    next
      case (Inr uobj)
      have u: "u = uobj\<lparr> base := (base uobj)\<lparr> import_attach := Some attach \<rparr> \<rparr>"
        using assms a m c Inr by (simp add: evdi_gem_prime_import_def)
      have "pages uobj \<noteq> None \<and> vmapping uobj = None"
        using prime_create_object [of k "size_buf buf" sgt ev' uobj] c Inr by simp
      then show ?thesis
        using u by auto
    qed
  qed
qed

lemma free_object_import_pages:
  assumes "import_attach (base obj) = Some a" and "pages obj = Some ps"
  shows "\<exists>pre. fst (evdi_gem_free_object obj) =
       pre @ [Drm_prime_gem_destroy (sg obj), Put_device, Drm_free_large (Some ps),
              Drm_gem_free_mmap_offset] \<and>
     filter is_page_release pre = []"
proof (cases "vmapping obj")
  case None
  have "fst (evdi_gem_free_object obj) =
      [] @ [Drm_prime_gem_destroy (sg obj), Put_device, Drm_free_large (Some ps),
            Drm_gem_free_mmap_offset]"
    by (simp add: free_object_imported_unmapped [OF assms(1) None] assms(2))
  then show ?thesis
    by (intro exI [of _ "[]"]) simp
next
  case (Some v)
  have "fst (evdi_gem_free_object obj) =
      [Dma_buf_vunmap (dmabuf a) (Some v)] @
      [Drm_prime_gem_destroy (sg obj), Put_device, Drm_free_large (Some ps),
       Drm_gem_free_mmap_offset]"
    by (simp add: free_object_imported_mapped [OF assms(1) Some] assms(2))
  then show ?thesis
    by (intro exI [of _ "[Dma_buf_vunmap (dmabuf a) (Some v)]"]) simp
qed

lemma free_object_local_no_import_release:
  assumes "import_attach (base obj) = None"
  shows "filter is_import_release (fst (evdi_gem_free_object obj)) = []"
proof (cases "vmapping obj")
  case None
  show ?thesis
    by (cases "pages obj") (simp_all add: free_object_local_unmapped [OF assms None])
next
  case (Some v)
  show ?thesis
    by (simp add: free_object_local_mapped [OF assms Some])
qed

lemma free_object_after_import:
  assumes "evdi_gem_prime_import k buf = (ev, Inr u)"
  shows "fst (evdi_gem_free_object u) =
     [Drm_prime_gem_destroy (sg u), Put_device, Drm_free_large (pages u),
      Drm_gem_free_mmap_offset] \<and> pages u \<noteq> None"
proof -
  obtain a ps where u: "import_attach (base u) = Some a" "pages u = Some ps" "vmapping u = None"
    using prime_import_object [OF assms] by blast
  show ?thesis
    by (simp add: free_object_imported_unmapped [OF u(1) u(3)] u(2))
qed

text \<open>
  Claim C4, as the code has it. The calls of \<open>evdi_gem_free_object\<close> are, in this order:
  the unmapping of a live kernel mapping (for a local object together with the release of
  its pages); for an imported object \<open>drm_prime_gem_destroy\<close> and \<open>put_device\<close>; the
  release of a page array that is still present (the array of an imported object, or the
  pages of a local object that had no mapping); and \<open>drm_gem_free_mmap_offset\<close> last. No
  unmapping of the kernel mapping follows the release of the import. The page array of an
  imported object is freed after the import has been released, and not before; that is the
  case for every object \<open>evdi_gem_prime_import\<close> returns. A local object has no import
  release. Nothing in the function frees the base object, and the object is left without
  mapping and without pages.
\<close>

theorem evdi_gem_free_object_order:
  "fst (evdi_gem_free_object obj) =
     (case vmapping obj of
        None \<Rightarrow> []
      | Some v \<Rightarrow>
          (case import_attach (base obj) of
             Some a \<Rightarrow> [Dma_buf_vunmap (dmabuf a) (Some v)]
           | None \<Rightarrow> [Vunmap v, Drm_gem_put_pages (pages obj) False False])) @
     (case import_attach (base obj) of
        None \<Rightarrow> []
      | Some a \<Rightarrow> [Drm_prime_gem_destroy (sg obj), Put_device]) @
     (case pages obj of
        None \<Rightarrow> []
      | Some ps \<Rightarrow>
          (case import_attach (base obj) of
             Some a \<Rightarrow> [Drm_free_large (Some ps)]
           | None \<Rightarrow>
               if vmapping obj = None then [Drm_gem_put_pages (Some ps) False False] else [])) @
     [Drm_gem_free_mmap_offset] \<and>
   sorted_wrt (\<lambda>a b. \<not> (is_import_release a \<and> is_kernel_unmap b))
     (fst (evdi_gem_free_object obj)) \<and>
   (\<forall>a ps. import_attach (base obj) = Some a \<and> pages obj = Some ps \<longrightarrow>
      (\<exists>pre. fst (evdi_gem_free_object obj) =
         pre @ [Drm_prime_gem_destroy (sg obj), Put_device, Drm_free_large (Some ps),
                Drm_gem_free_mmap_offset] \<and>
       filter is_page_release pre = [])) \<and>
   (import_attach (base obj) = None \<longrightarrow>
      filter is_import_release (fst (evdi_gem_free_object obj)) = []) \<and>
   (\<forall>k buf ev u. evdi_gem_prime_import k buf = (ev, Inr u) \<longrightarrow>
      fst (evdi_gem_free_object u) =
        [Drm_prime_gem_destroy (sg u), Put_device, Drm_free_large (pages u),
         Drm_gem_free_mmap_offset] \<and> pages u \<noteq> None) \<and>
   Kfree \<notin> set (fst (evdi_gem_free_object obj)) \<and>
   Drm_gem_object_release \<notin> set (fst (evdi_gem_free_object obj)) \<and>
   pages (snd (evdi_gem_free_object obj)) = None \<and>
   vmapping (snd (evdi_gem_free_object obj)) = None"
proof -
  have main: "fst (evdi_gem_free_object obj) =
     (case vmapping obj of
        None \<Rightarrow> []
      | Some v \<Rightarrow>
          (case import_attach (base obj) of
             Some a \<Rightarrow> [Dma_buf_vunmap (dmabuf a) (Some v)]
           | None \<Rightarrow> [Vunmap v, Drm_gem_put_pages (pages obj) False False])) @
     (case import_attach (base obj) of
        None \<Rightarrow> []
      | Some a \<Rightarrow> [Drm_prime_gem_destroy (sg obj), Put_device]) @
     (case pages obj of
        None \<Rightarrow> []
      | Some ps \<Rightarrow>
          (case import_attach (base obj) of
             Some a \<Rightarrow> [Drm_free_large (Some ps)]
           | None \<Rightarrow>
               if vmapping obj = None then [Drm_gem_put_pages (Some ps) False False] else [])) @
     [Drm_gem_free_mmap_offset] \<and>
   sorted_wrt (\<lambda>a b. \<not> (is_import_release a \<and> is_kernel_unmap b))
     (fst (evdi_gem_free_object obj)) \<and>
   Kfree \<notin> set (fst (evdi_gem_free_object obj)) \<and>
   Drm_gem_object_release \<notin> set (fst (evdi_gem_free_object obj)) \<and>
   pages (snd (evdi_gem_free_object obj)) = None \<and>
   vmapping (snd (evdi_gem_free_object obj)) = None"
  proof (cases "import_attach (base obj)")
    case None
    show ?thesis
    proof (cases "vmapping obj")
      case n: None
      show ?thesis
        by (cases "pages obj") (simp_all add: free_object_local_unmapped [OF None n] None n)
    next
      case (Some v)
      show ?thesis
        by (cases "pages obj") (simp_all add: free_object_local_mapped [OF None Some] None Some)
    qed
  next
    case (Some a)
    show ?thesis
    proof (cases "vmapping obj")
      case None
      show ?thesis
        by (cases "pages obj")
           (simp_all add: free_object_imported_unmapped [OF Some None] Some None)
    next
      case s: (Some v)
      show ?thesis
        by (cases "pages obj") (simp_all add: free_object_imported_mapped [OF Some s] Some s)
    qed
  qed
  show ?thesis
    using main free_object_import_pages [of obj] free_object_local_no_import_release [of obj]
      free_object_after_import
    by blast
qed

text \<open>
  The theorem of C4 at concrete inputs: a mapped imported object, a mapped local object, a
  local object with pages and no mapping, an object with neither, and the object returned
  by a successful import of an 8192-byte foreign buffer.
\<close>

theorem evdi_gem_free_object_order_witness:
  "fst (evdi_gem_free_object imported_obj) =
     [Dma_buf_vunmap foreign_buf (Some 0x2000), Drm_prime_gem_destroy (Some 7), Put_device,
      Drm_free_large (Some [20, 21]), Drm_gem_free_mmap_offset] \<and>
   fst (evdi_gem_free_object local_obj) =
     [Vunmap 0x1000, Drm_gem_put_pages (Some [10, 11]) False False, Drm_gem_free_mmap_offset] \<and>
   fst (evdi_gem_free_object (local_obj\<lparr> vmapping := None \<rparr>)) =
     [Drm_gem_put_pages (Some [10, 11]) False False, Drm_gem_free_mmap_offset] \<and>
   fst (evdi_gem_free_object fresh_obj) = [Drm_gem_free_mmap_offset] \<and>
   filter is_import_release (fst (evdi_gem_free_object local_obj)) = [] \<and>
   snd (evdi_gem_prime_import kernel_import_ok foreign_buf) =
     Inr (imported_obj\<lparr> vmapping := None \<rparr>) \<and>
   fst (evdi_gem_free_object (imported_obj\<lparr> vmapping := None \<rparr>)) =
     [Drm_prime_gem_destroy (Some 7), Put_device, Drm_free_large (Some [20, 21]),
      Drm_gem_free_mmap_offset]"
proof -
  have la: "import_attach (base local_obj) = None"
    by (simp add: local_obj_def)
  have traces: "fst (evdi_gem_free_object imported_obj) =
     [Dma_buf_vunmap foreign_buf (Some 0x2000), Drm_prime_gem_destroy (Some 7), Put_device,
      Drm_free_large (Some [20, 21]), Drm_gem_free_mmap_offset] \<and>
   fst (evdi_gem_free_object local_obj) =
     [Vunmap 0x1000, Drm_gem_put_pages (Some [10, 11]) False False, Drm_gem_free_mmap_offset] \<and>
   fst (evdi_gem_free_object (local_obj\<lparr> vmapping := None \<rparr>)) =
     [Drm_gem_put_pages (Some [10, 11]) False False, Drm_gem_free_mmap_offset] \<and>
   fst (evdi_gem_free_object fresh_obj) = [Drm_gem_free_mmap_offset]"
    using evdi_gem_free_object_order [where obj = imported_obj, THEN conjunct1]
      evdi_gem_free_object_order [where obj = local_obj, THEN conjunct1]
      evdi_gem_free_object_order [where obj = "local_obj\<lparr> vmapping := None \<rparr>", THEN conjunct1]
      evdi_gem_free_object_order [where obj = fresh_obj, THEN conjunct1]
    by (simp add: imported_obj_def local_obj_def fresh_obj_def foreign_attach_def)
  have noimp: "filter is_import_release (fst (evdi_gem_free_object local_obj)) = []"
    using evdi_gem_free_object_order [where obj = local_obj, THEN conjunct2, THEN conjunct2,
        THEN conjunct2, THEN conjunct1] la by simp
  have n: "npages kernel_import_ok (size_buf foreign_buf) = 2"
    by (simp add: npages_def PAGE_SIZE_def kernel_import_ok_def kernel0_def foreign_buf_def)
  have ps: "PAGE_SIZE kernel_import_ok = 4096"
    by (simp add: PAGE_SIZE_def kernel_import_ok_def kernel0_def)
  have cr: "evdi_prime_create kernel_import_ok (size_buf foreign_buf) 7 =
      ([Kzalloc, Drm_gem_object_init 8192, Drm_malloc_ab 2,
        Drm_prime_sg_to_page_addr_arrays 7 2],
       Inr \<lparr> base = \<lparr> size_gem = 8192, import_attach = None \<rparr>, pages = Some [20, 21],
             vmapping = None, sg = Some 7 \<rparr>)"
    by (simp add: evdi_prime_create_def evdi_gem_alloc_object_def Let_def n ps)
       (simp add: kernel_import_ok_def kernel0_def)
  have at: "dma_buf_attach_res kernel_import_ok = Inr foreign_attach"
    by (simp add: kernel_import_ok_def)
  have mp: "dma_buf_map_attachment_res kernel_import_ok = Inr 7"
    by (simp add: kernel_import_ok_def)
  have imp: "evdi_gem_prime_import kernel_import_ok foreign_buf =
      ([Get_device, Dma_buf_attach foreign_buf, Get_dma_buf foreign_buf,
        Dma_buf_map_attachment foreign_attach, Kzalloc, Drm_gem_object_init 8192,
        Drm_malloc_ab 2, Drm_prime_sg_to_page_addr_arrays 7 2],
       Inr (imported_obj\<lparr> vmapping := None \<rparr>))"
    by (simp add: evdi_gem_prime_import_def at mp cr imported_obj_def)
  have after: "fst (evdi_gem_free_object (imported_obj\<lparr> vmapping := None \<rparr>)) =
     [Drm_prime_gem_destroy (Some 7), Put_device, Drm_free_large (Some [20, 21]),
      Drm_gem_free_mmap_offset]"
    using evdi_gem_free_object_order [where obj = local_obj, THEN conjunct2, THEN conjunct2,
        THEN conjunct2, THEN conjunct2, THEN conjunct1, rule_format, OF imp]
    by (simp add: imported_obj_def)
  show ?thesis
    using traces noimp imp after by simp
qed

text \<open>
  Claim C4 as stated fails in its conclusion: the import is released before the teardown of
  the pages of an imported object. For a mapped imported object with its page array, the
  second call releases the import and the fourth frees the page array.
\<close>

theorem evdi_gem_free_object_order_counterexample:
  "fst (evdi_gem_free_object imported_obj) =
     [Dma_buf_vunmap foreign_buf (Some 0x2000), Drm_prime_gem_destroy (Some 7), Put_device,
      Drm_free_large (Some [20, 21]), Drm_gem_free_mmap_offset] \<and>
   is_import_release (fst (evdi_gem_free_object imported_obj) ! 1) \<and>
   is_page_release (fst (evdi_gem_free_object imported_obj) ! 3)"
proof -
  have t: "fst (evdi_gem_free_object imported_obj) =
     [Dma_buf_vunmap foreign_buf (Some 0x2000), Drm_prime_gem_destroy (Some 7), Put_device,
      Drm_free_large (Some [20, 21]), Drm_gem_free_mmap_offset]"
    by (simp add: evdi_gem_free_object_def evdi_gem_vunmap_def evdi_gem_put_pages_def
        imported_obj_def foreign_attach_def)
  show ?thesis
    by (simp add: t)
qed

section \<open>Import: the mapping of the attachment fails\<close>

text \<open>
  Claim C3, as the code has it. When the attachment succeeds and mapping it fails with an
  errno, the import makes exactly these calls: \<open>get_device\<close>, \<open>dma_buf_attach\<close>,
  \<open>get_dma_buf\<close>, \<open>dma_buf_map_attachment\<close>, and then \<open>dma_buf_detach\<close>,
  \<open>dma_buf_put\<close>, \<open>put_device\<close>; the detach comes before the reference of step 3 is
  dropped. No page release and no kernel unmap is called, and the errno of the mapping is
  returned.
\<close>

theorem evdi_gem_prime_import_map_failure:
  assumes "dma_buf_attach_res k = Inr attach" and "dma_buf_map_attachment_res k = Inl e"
  shows "evdi_gem_prime_import k buf =
     ([Get_device, Dma_buf_attach buf, Get_dma_buf buf, Dma_buf_map_attachment attach,
       Dma_buf_detach buf attach, Dma_buf_put buf, Put_device], Inl e) \<and>
     filter is_page_release (fst (evdi_gem_prime_import k buf)) = [] \<and>
     filter is_kernel_unmap (fst (evdi_gem_prime_import k buf)) = []"
  using assms by (simp add: evdi_gem_prime_import_def fail_detach_def)

text \<open>
  The theorem of C3 at a concrete input: the attachment succeeds and the mapping fails
  with -22.
\<close>

theorem evdi_gem_prime_import_map_failure_witness:
  "evdi_gem_prime_import kernel_map_fails foreign_buf =
     ([Get_device, Dma_buf_attach foreign_buf, Get_dma_buf foreign_buf,
       Dma_buf_map_attachment foreign_attach,
       Dma_buf_detach foreign_buf foreign_attach, Dma_buf_put foreign_buf, Put_device],
      Inl (- 22))"
proof -
  have a: "dma_buf_attach_res kernel_map_fails = Inr foreign_attach"
    by (simp add: kernel_map_fails_def)
  have m: "dma_buf_map_attachment_res kernel_map_fails = Inl (- 22)"
    by (simp add: kernel_map_fails_def)
  show ?thesis
    using evdi_gem_prime_import_map_failure [OF a m, of foreign_buf] by simp
qed

text \<open>
  Claim C3 as stated fails: the releases are not in the reverse of the acquisition order.
  The acquisitions are \<open>get_device\<close>, \<open>dma_buf_attach\<close>, \<open>get_dma_buf\<close>; the reverse
  order would drop the buffer reference first, and the code detaches first.
\<close>

theorem evdi_gem_prime_import_unwind_counterexample:
  "take 3 (fst (evdi_gem_prime_import kernel_map_fails foreign_buf)) =
     [Get_device, Dma_buf_attach foreign_buf, Get_dma_buf foreign_buf] \<and>
   drop 4 (fst (evdi_gem_prime_import kernel_map_fails foreign_buf)) =
     [Dma_buf_detach foreign_buf foreign_attach, Dma_buf_put foreign_buf, Put_device] \<and>
   drop 4 (fst (evdi_gem_prime_import kernel_map_fails foreign_buf)) \<noteq>
     [Dma_buf_put foreign_buf, Dma_buf_detach foreign_buf foreign_attach, Put_device]"
  by (simp add: evdi_gem_prime_import_def fail_detach_def kernel_map_fails_def)

section \<open>Import: the page array cannot be allocated\<close>

lemma prime_create_malloc_fails:
  assumes "kzalloc_ok k" and "drm_gem_object_init_ret k = 0" and "\<not> drm_malloc_ab_ok k"
  shows "evdi_prime_create k sz sgt =
     ([Kzalloc, Drm_gem_object_init (scast (npages k sz) * PAGE_SIZE k),
       Drm_malloc_ab (sint (npages k sz))], Inl (- ENOMEM))"
  using assms by (simp add: evdi_prime_create_def evdi_gem_alloc_object_def Let_def)

text \<open>
  Claim C10. When the local object has been allocated and the allocation of its page
  array fails, the import unmaps the attachment, detaches, drops the buffer reference and
  the device reference, and returns \<open>-ENOMEM\<close>; no call frees, releases or unreferences the
  object allocated by \<open>kzalloc\<close> and initialised by \<open>drm_gem_object_init\<close>.
\<close>

theorem evdi_gem_prime_import_leaks_object:
  assumes "dma_buf_attach_res k = Inr attach" and "dma_buf_map_attachment_res k = Inr sgt"
    and "kzalloc_ok k" and "drm_gem_object_init_ret k = 0" and "\<not> drm_malloc_ab_ok k"
  shows "evdi_gem_prime_import k buf =
     ([Get_device, Dma_buf_attach buf, Get_dma_buf buf, Dma_buf_map_attachment attach,
       Kzalloc, Drm_gem_object_init (scast (npages k (size_buf buf)) * PAGE_SIZE k),
       Drm_malloc_ab (sint (npages k (size_buf buf))),
       Dma_buf_unmap_attachment attach sgt, Dma_buf_detach buf attach, Dma_buf_put buf,
       Put_device], Inl (- ENOMEM)) \<and>
     Kfree \<notin> set (fst (evdi_gem_prime_import k buf)) \<and>
     Drm_gem_object_release \<notin> set (fst (evdi_gem_prime_import k buf)) \<and>
     Drm_gem_object_unreference \<notin> set (fst (evdi_gem_prime_import k buf))"
  using assms(1,2) prime_create_malloc_fails [OF assms(3,4,5), of "size_buf buf" sgt]
  by (simp add: evdi_gem_prime_import_def fail_unmap_def fail_detach_def)

text \<open>
  The theorem of C10 at a concrete input: an 8192-byte foreign buffer, 4096-byte pages,
  and \<open>drm_malloc_ab\<close> failing.
\<close>

theorem evdi_gem_prime_import_leaks_object_witness:
  "evdi_gem_prime_import kernel_malloc_fails foreign_buf =
     ([Get_device, Dma_buf_attach foreign_buf, Get_dma_buf foreign_buf,
       Dma_buf_map_attachment foreign_attach,
       Kzalloc, Drm_gem_object_init 8192, Drm_malloc_ab 2,
       Dma_buf_unmap_attachment foreign_attach 7, Dma_buf_detach foreign_buf foreign_attach,
       Dma_buf_put foreign_buf, Put_device], Inl (- 12))"
proof -
  have a: "dma_buf_attach_res kernel_malloc_fails = Inr foreign_attach"
    by (simp add: kernel_malloc_fails_def)
  have m: "dma_buf_map_attachment_res kernel_malloc_fails = Inr 7"
    by (simp add: kernel_malloc_fails_def)
  have z: "kzalloc_ok kernel_malloc_fails"
    by (simp add: kernel_malloc_fails_def kernel0_def)
  have i: "drm_gem_object_init_ret kernel_malloc_fails = 0"
    by (simp add: kernel_malloc_fails_def kernel0_def)
  have f: "\<not> drm_malloc_ab_ok kernel_malloc_fails"
    by (simp add: kernel_malloc_fails_def)
  have n: "npages kernel_malloc_fails (size_buf foreign_buf) = 2"
    by (simp add: npages_def PAGE_SIZE_def kernel_malloc_fails_def kernel0_def foreign_buf_def)
  have p: "PAGE_SIZE kernel_malloc_fails = 4096"
    by (simp add: PAGE_SIZE_def kernel_malloc_fails_def kernel0_def)
  show ?thesis
    using evdi_gem_prime_import_leaks_object [OF a m z i f, of foreign_buf]
    by (simp add: n p ENOMEM_def)
qed

section \<open>Dumb buffer creation\<close>

lemma unat_DIV_ROUND_UP_8: "unat (DIV_ROUND_UP b 8) = ((unat b + 7) mod 2 ^ 32) div 8"
proof -
  have "DIV_ROUND_UP b 8 = (b + 7) div 8"
    by (simp add: DIV_ROUND_UP_def add.commute)
  then show ?thesis
    by (simp add: unat_div unat_word_ariths)
qed

lemma dumb_create_args:
  "snd (snd (evdi_dumb_create k args)) =
     (let a2 = args\<lparr> pitch := width args * DIV_ROUND_UP (bpp args) 8,
                       size_args := ucast (width args * DIV_ROUND_UP (bpp args) 8 * height args) \<rparr>
      in case snd (snd (evdi_gem_create k (size_args a2))) of
           None \<Rightarrow> a2 | Some h \<Rightarrow> a2\<lparr> handle := h \<rparr>)"
  by (simp add: evdi_dumb_create_def Let_def split: prod.splits option.splits)

lemma dumb_create_pitch:
  "pitch (snd (snd (evdi_dumb_create k args))) = width args * DIV_ROUND_UP (bpp args) 8"
  by (simp add: dumb_create_args Let_def split: option.splits)

lemma dumb_create_size:
  "size_args (snd (snd (evdi_dumb_create k args))) =
     ucast (width args * DIV_ROUND_UP (bpp args) 8 * height args)"
  by (simp add: dumb_create_args Let_def split: option.splits)


lemma unat_ucast_32_64: "unat (ucast (x :: 32 word) :: 64 word) = unat x"
  by (simp add: unsigned_ucast_eq take_bit_nat_eq_self_iff)
     (rule less_trans [OF unsigned_less], simp)

lemma unat_pitch:
  "unat (pitch (snd (snd (evdi_dumb_create k args)))) =
     (unat (width args) * (((unat (bpp args) + 7) mod 2 ^ 32) div 8)) mod 2 ^ 32"
  by (simp add: dumb_create_pitch unat_word_ariths unat_DIV_ROUND_UP_8)

lemma unat_size:
  "unat (size_args (snd (snd (evdi_dumb_create k args)))) =
     (unat (pitch (snd (snd (evdi_dumb_create k args)))) * unat (height args)) mod 2 ^ 32"
  by (simp add: dumb_create_size dumb_create_pitch unat_ucast_32_64 unat_word_ariths)

lemma ceil8: "nat \<lceil>real b / 8\<rceil> = (b + 7) div 8"
proof -
  have "\<lceil>real b / 8\<rceil> = \<lceil>of_int (int b) / (of_int 8 :: real)\<rceil>"
    by simp
  also have "\<dots> = - (- int b div 8)"
    by (rule ceiling_divide_eq_div)
  also have "\<dots> = (int b + 7) div 8"
    by presburger
  finally show ?thesis
    by (simp add: nat_div_distrib nat_add_distrib)
qed


lemma ceil8_unsigned:
  "nat \<lceil>(unsigned (b :: 'a::len word) :: real) / 8\<rceil> = (unat b + 7) div 8"
  using ceil8 [of "unat b"] by simp





text \<open>
  Claim C9. The stored pitch is \<open>width * ((bpp + 7) mod 2^32 div 8)\<close> modulo \<open>2^32\<close>,
  and the stored 64-bit size is the product of the stored pitch and the height modulo
  \<open>2^32\<close>, so it is below \<open>2^32\<close>; for some request the stored size is strictly
  smaller than \<open>width * ceil(bpp/8) * height\<close>.
\<close>

theorem evdi_dumb_create_wraps:
  "unat (pitch (snd (snd (evdi_dumb_create k args)))) =
     (unat (width args) * (((unat (bpp args) + 7) mod 2 ^ 32) div 8)) mod 2 ^ 32 \<and>
   unat (size_args (snd (snd (evdi_dumb_create k args)))) =
     (unat (pitch (snd (snd (evdi_dumb_create k args)))) * unat (height args)) mod 2 ^ 32 \<and>
   unat (size_args (snd (snd (evdi_dumb_create k args)))) < 2 ^ 32 \<and>
   (\<exists>a. unat (size_args (snd (snd (evdi_dumb_create k a)))) <
      unat (width a) * nat \<lceil>real (unat (bpp a)) / 8\<rceil> * unat (height a))"
proof -
  have b: "unat (bpp big_args) = 32" and w: "unat (width big_args) = 65536"
    and h: "unat (height big_args) = 16385"
    by (simp_all add: big_args_def)
  have p: "unat (pitch (snd (snd (evdi_dumb_create k big_args)))) = 262144"
    by (simp add: unat_pitch b w)
  have s: "unat (size_args (snd (snd (evdi_dumb_create k big_args)))) = 262144"
    by (simp add: unat_size p h)
  have less: "unat (size_args (snd (snd (evdi_dumb_create k big_args)))) <
      unat (width big_args) * nat \<lceil>real (unat (bpp big_args)) / 8\<rceil> * unat (height big_args)"
    by (simp add: s ceil8_unsigned b w h)
  have bound: "unat (size_args (snd (snd (evdi_dumb_create k args)))) < 2 ^ 32"
    by (simp add: unat_size)
  show ?thesis
    using unat_pitch [of k args] unat_size [of k args] bound less by blast
qed

text \<open>
  The theorem of C9 at the request of width 65536, 32 bits per pixel, height 16385: the
  pitch is 262144 and the product 4295229440 is stored as 262144.
\<close>

theorem evdi_dumb_create_wraps_witness:
  "unat (pitch (snd (snd (evdi_dumb_create kernel0 big_args)))) = 262144 \<and>
   unat (size_args (snd (snd (evdi_dumb_create kernel0 big_args)))) = 262144 \<and>
   unat (width big_args) * nat \<lceil>real (unat (bpp big_args)) / 8\<rceil> * unat (height big_args) =
     4295229440"
proof -
  have b: "unat (bpp big_args) = 32" and w: "unat (width big_args) = 65536"
    and h: "unat (height big_args) = 16385"
    by (simp_all add: big_args_def)
  note t = evdi_dumb_create_wraps [of kernel0 big_args]
  have p: "unat (pitch (snd (snd (evdi_dumb_create kernel0 big_args)))) = 262144"
    using t [THEN conjunct1] by (simp add: b w)
  have s: "unat (size_args (snd (snd (evdi_dumb_create kernel0 big_args)))) = 262144"
    using t [THEN conjunct2, THEN conjunct1] by (simp add: p h)
  show ?thesis
    by (simp add: p s ceil8_unsigned b w h)
qed

end
